theory Spec2Isabelle
  imports Main "HOL-Library.Word"
begin

section \<open>Solidity values, reverts and checked arithmetic\<close>

text \<open>
  The two contracts of \<^verbatim>\<open>contracts/BuildingBrillianceToken.sol\<close> are compiled with
  Solidity 0.8: every \<^verbatim>\<open>uint256\<close> is a 256-bit word, and \<^verbatim>\<open>+\<close>, \<^verbatim>\<open>-\<close>, \<^verbatim>\<open>*\<close> and
  \<^verbatim>\<open>**\<close> revert with an arithmetic panic instead of wrapping around. A call that
  reverts leaves no state behind, so every entry point returns either an error or the
  state after the call.
\<close>

type_synonym uint256 = "256 word"
type_synonym address = "160 word"

datatype error =
    ArithmeticPanic
  | DivisionByZero
  | MissingRole
  | Revert string

fun and_then :: "error + 'a \<Rightarrow> ('a \<Rightarrow> error + 'b) \<Rightarrow> error + 'b" where
  "and_then (Inl err) f = Inl err"
| "and_then (Inr x) f = f x"

definition require :: "bool \<Rightarrow> string \<Rightarrow> error + unit" where
  "require c msg = (if c then Inr () else Inl (Revert msg))"

definition checked_add :: "uint256 \<Rightarrow> uint256 \<Rightarrow> error + uint256" where
  "checked_add a b = (if unat a + unat b < 2 ^ 256 then Inr (a + b) else Inl ArithmeticPanic)"

definition checked_sub :: "uint256 \<Rightarrow> uint256 \<Rightarrow> error + uint256" where
  "checked_sub a b = (if b \<le> a then Inr (a - b) else Inl ArithmeticPanic)"

definition checked_mul :: "uint256 \<Rightarrow> uint256 \<Rightarrow> error + uint256" where
  "checked_mul a b = (if unat a * unat b < 2 ^ 256 then Inr (a * b) else Inl ArithmeticPanic)"

definition checked_exp :: "uint256 \<Rightarrow> uint256 \<Rightarrow> error + uint256" where
  "checked_exp a n = (if unat a ^ unat n < 2 ^ 256 then Inr (a ^ unat n) else Inl ArithmeticPanic)"

definition checked_div :: "uint256 \<Rightarrow> uint256 \<Rightarrow> error + uint256" where
  "checked_div a b = (if b = 0 then Inl DivisionByZero else Inr (a div b))"

text \<open>The state a transaction leaves: the state before it when the call reverted.\<close>

definition commit :: "'s \<Rightarrow> error + 's \<Rightarrow> 's" where
  "commit s r = (case r of Inl err \<Rightarrow> s | Inr s' \<Rightarrow> s')"

definition days :: uint256 where
  "days = 86400"

datatype role =
    DEFAULT_ADMIN_ROLE
  | MINTER_ROLE
  | PAUSER_ROLE
  | REWARDS_ROLE
  | ORACLE_ROLE
  | MARKETPLACE_ROLE

section \<open>BuildingBrillianceToken: the staking and reward ledger\<close>

record Stake =
  amount :: uint256
  timestamp :: uint256
  rewardDebt :: uint256
  lockPeriod :: uint256

text \<open>
  The contract's storage. \<open>balances\<close>, \<open>totalSupply\<close> and \<open>paused\<close> are the storage of
  the inherited ERC20 and Pausable bases, \<open>roles\<close> that of AccessControl; the other
  fields are declared in the contract itself. A Solidity mapping is a total function
  whose default is zero.
\<close>

record token_state =
  balances :: "address \<Rightarrow> uint256"
  totalSupply :: uint256
  paused :: bool
  roles :: "role \<Rightarrow> address \<Rightarrow> bool"
  stakes :: "address \<Rightarrow> Stake"
  rewards :: "address \<Rightarrow> uint256"
  totalStaked :: uint256
  rewardRate :: uint256
  rewardPool :: uint256
  lastRewardDistribution :: uint256

text \<open>What a call sees of its environment: \<^verbatim>\<open>msg.sender\<close>, \<^verbatim>\<open>block.timestamp\<close>, \<^verbatim>\<open>address(this)\<close>.\<close>

record env =
  msg_sender :: address
  block_timestamp :: uint256
  address_this :: address

definition MAX_SUPPLY :: uint256 where
  "MAX_SUPPLY = 1000000000 * 10 ^ 18"

definition INITIAL_SUPPLY :: uint256 where
  "INITIAL_SUPPLY = 100000000 * 10 ^ 18"

definition SECONDS_PER_YEAR :: uint256 where
  "SECONDS_PER_YEAR = 365 * days"

definition onlyRole :: "role \<Rightarrow> address \<Rightarrow> (role \<Rightarrow> address \<Rightarrow> bool) \<Rightarrow> error + unit" where
  "onlyRole r sender rs = (if rs r sender then Inr () else Inl MissingRole)"

subsection \<open>The inherited token primitives\<close>

text \<open>
  Modelled from the spec: the OpenZeppelin bases that the contract imports (ERC20,
  ERC20Pausable) are not among the repository's sources. The specification takes them as
  the trusted fungible ledger: account balances that a transfer moves when the sender
  holds enough, and a pause gate under which a transfer attempted while paused fails.
  The contract itself documents \<^verbatim>\<open>pause\<close> as "Pause token transfers", overrides the
  transfer hook with \<^verbatim>\<open>override(ERC20, ERC20Pausable)\<close> and forwards it to \<^verbatim>\<open>super\<close>, so
  every \<^verbatim>\<open>_transfer\<close> and \<^verbatim>\<open>_mint\<close> of the contract passes the gate.
\<close>

definition beforeTokenTransfer :: "token_state \<Rightarrow> error + unit" where
  "beforeTokenTransfer s = require (\<not> paused s) ''ERC20Pausable: token transfer while paused''"

definition erc20_transfer :: "address \<Rightarrow> address \<Rightarrow> uint256 \<Rightarrow> token_state \<Rightarrow> error + token_state" where
  "erc20_transfer from to amt s =
     and_then (require (from \<noteq> 0) ''ERC20: transfer from the zero address'') (\<lambda>_.
     and_then (require (to \<noteq> 0) ''ERC20: transfer to the zero address'') (\<lambda>_.
     and_then (beforeTokenTransfer s) (\<lambda>_.
     and_then (require (balances s from \<ge> amt) ''ERC20: transfer amount exceeds balance'') (\<lambda>_.
     let b1 = (balances s)(from := balances s from - amt);
         b2 = b1(to := b1 to + amt)
     in Inr (s\<lparr>balances := b2\<rparr>)))))"

definition erc20_mint :: "address \<Rightarrow> uint256 \<Rightarrow> token_state \<Rightarrow> error + token_state" where
  "erc20_mint to amt s =
     and_then (require (to \<noteq> 0) ''ERC20: mint to the zero address'') (\<lambda>_.
     and_then (beforeTokenTransfer s) (\<lambda>_.
     and_then (checked_add (totalSupply s) amt) (\<lambda>ts.
     Inr (s\<lparr>totalSupply := ts, balances := (balances s)(to := balances s to + amt)\<rparr>))))"

subsection \<open>The contract's functions\<close>

definition constructor :: "env \<Rightarrow> address \<Rightarrow> address \<Rightarrow> address \<Rightarrow> error + token_state" where
  "constructor e admin minter rewardsManager =
     (let rs0 = (\<lambda>r a. False);
          rs1 = rs0(DEFAULT_ADMIN_ROLE := (rs0 DEFAULT_ADMIN_ROLE)(admin := True));
          rs2 = rs1(MINTER_ROLE := (rs1 MINTER_ROLE)(minter := True));
          rs3 = rs2(PAUSER_ROLE := (rs2 PAUSER_ROLE)(admin := True));
          rs4 = rs3(REWARDS_ROLE := (rs3 REWARDS_ROLE)(rewardsManager := True));
          s0 = \<lparr> balances = (\<lambda>a. 0), totalSupply = 0, paused = False, roles = rs4,
                 stakes = (\<lambda>a. \<lparr> amount = 0, timestamp = 0, rewardDebt = 0, lockPeriod = 0 \<rparr>),
                 rewards = (\<lambda>a. 0), totalStaked = 0, rewardRate = 100, rewardPool = 0,
                 lastRewardDistribution = 0 \<rparr>
      in and_then (erc20_mint admin INITIAL_SUPPLY s0) (\<lambda>s1.
         Inr (s1\<lparr>lastRewardDistribution := block_timestamp e\<rparr>)))"

definition mint :: "env \<Rightarrow> address \<Rightarrow> uint256 \<Rightarrow> token_state \<Rightarrow> error + token_state" where
  "mint e to amt s =
     and_then (onlyRole MINTER_ROLE (msg_sender e) (roles s)) (\<lambda>_.
     and_then (checked_add (totalSupply s) amt) (\<lambda>total.
     and_then (require (total \<le> MAX_SUPPLY) ''Exceeds max supply'') (\<lambda>_.
     erc20_mint to amt s)))"

definition pause :: "env \<Rightarrow> token_state \<Rightarrow> error + token_state" where
  "pause e s =
     and_then (onlyRole PAUSER_ROLE (msg_sender e) (roles s)) (\<lambda>_.
     and_then (require (\<not> paused s) ''Pausable: paused'') (\<lambda>_.
     Inr (s\<lparr>paused := True\<rparr>)))"

definition unpause :: "env \<Rightarrow> token_state \<Rightarrow> error + token_state" where
  "unpause e s =
     and_then (onlyRole PAUSER_ROLE (msg_sender e) (roles s)) (\<lambda>_.
     and_then (require (paused s) ''Pausable: not paused'') (\<lambda>_.
     Inr (s\<lparr>paused := False\<rparr>)))"

definition internal_updateRewards :: "env \<Rightarrow> address \<Rightarrow> token_state \<Rightarrow> error + token_state" where
  "internal_updateRewards e user s =
     (let userStake = stakes s user in
      if amount userStake > 0 then
        and_then (checked_sub (block_timestamp e) (timestamp userStake)) (\<lambda>timeStaked.
        and_then (checked_mul (amount userStake) (rewardRate s)) (\<lambda>p1.
        and_then (checked_mul p1 timeStaked) (\<lambda>p2.
        and_then (checked_mul SECONDS_PER_YEAR 10000) (\<lambda>d.
        and_then (checked_div p2 d) (\<lambda>reward.
        and_then (checked_add (rewards s user) reward) (\<lambda>r.
        Inr (s\<lparr>rewards := (rewards s)(user := r),
                stakes := (stakes s)(user := userStake\<lparr>timestamp := block_timestamp e\<rparr>)\<rparr>)))))))
      else Inr s)"

definition internal_claimRewards :: "env \<Rightarrow> token_state \<Rightarrow> error + token_state" where
  "internal_claimRewards e s =
     (let reward = rewards s (msg_sender e) in
      if reward > 0 then
        (let s1 = s\<lparr>rewards := (rewards s)(msg_sender e := 0)\<rparr> in
         and_then (require (rewardPool s1 \<ge> reward) ''Insufficient reward pool'') (\<lambda>_.
         and_then (checked_sub (rewardPool s1) reward) (\<lambda>pool.
         erc20_transfer (address_this e) (msg_sender e) reward (s1\<lparr>rewardPool := pool\<rparr>))))
      else Inr s)"

definition stake :: "env \<Rightarrow> uint256 \<Rightarrow> uint256 \<Rightarrow> token_state \<Rightarrow> error + token_state" where
  "stake e amt lockP s =
     and_then (require (amt > 0) ''Amount must be greater than 0'') (\<lambda>_.
     and_then (require (lockP \<ge> 30 * days) ''Minimum lock period is 30 days'') (\<lambda>_.
     and_then (require (lockP \<le> 365 * days) ''Maximum lock period is 365 days'') (\<lambda>_.
     and_then (require (balances s (msg_sender e) \<ge> amt) ''Insufficient balance'') (\<lambda>_.
     and_then (internal_updateRewards e (msg_sender e) s) (\<lambda>s1.
     and_then (erc20_transfer (msg_sender e) (address_this e) amt s1) (\<lambda>s2.
     let userStake = stakes s2 (msg_sender e) in
     and_then (checked_add (amount userStake) amt) (\<lambda>a.
     and_then (checked_add (totalStaked s2) amt) (\<lambda>total.
     Inr (s2\<lparr>stakes := (stakes s2)(msg_sender e :=
                 userStake\<lparr>amount := a, timestamp := block_timestamp e, lockPeriod := lockP\<rparr>),
              totalStaked := total\<rparr>)))))))))"

definition unstake :: "env \<Rightarrow> uint256 \<Rightarrow> token_state \<Rightarrow> error + token_state" where
  "unstake e amt s =
     (let userStake = stakes s (msg_sender e) in
      and_then (require (amount userStake \<ge> amt) ''Insufficient staked amount'') (\<lambda>_.
      and_then (checked_add (timestamp userStake) (lockPeriod userStake)) (\<lambda>unlock.
      and_then (require (block_timestamp e \<ge> unlock) ''Lock period not expired'') (\<lambda>_.
      and_then (internal_updateRewards e (msg_sender e) s) (\<lambda>s1.
      and_then (internal_claimRewards e s1) (\<lambda>s2.
      and_then (checked_sub (amount (stakes s2 (msg_sender e))) amt) (\<lambda>a.
      and_then (checked_sub (totalStaked s2) amt) (\<lambda>total.
      erc20_transfer (address_this e) (msg_sender e) amt
        (s2\<lparr>stakes := (stakes s2)(msg_sender e := (stakes s2 (msg_sender e))\<lparr>amount := a\<rparr>),
            totalStaked := total\<rparr>)))))))))"

definition claimRewards :: "env \<Rightarrow> token_state \<Rightarrow> error + token_state" where
  "claimRewards e s =
     and_then (internal_updateRewards e (msg_sender e) s) (\<lambda>s1.
     internal_claimRewards e s1)"

definition distributeRewards :: "env \<Rightarrow> uint256 \<Rightarrow> token_state \<Rightarrow> error + token_state" where
  "distributeRewards e amt s =
     and_then (onlyRole REWARDS_ROLE (msg_sender e) (roles s)) (\<lambda>_.
     and_then (require (balances s (msg_sender e) \<ge> amt) ''Insufficient balance'') (\<lambda>_.
     and_then (erc20_transfer (msg_sender e) (address_this e) amt s) (\<lambda>s1.
     and_then (checked_add (rewardPool s1) amt) (\<lambda>pool.
     Inr (s1\<lparr>rewardPool := pool, lastRewardDistribution := block_timestamp e\<rparr>)))))"

definition updateRewardRate :: "env \<Rightarrow> uint256 \<Rightarrow> token_state \<Rightarrow> error + token_state" where
  "updateRewardRate e newRate s =
     and_then (onlyRole DEFAULT_ADMIN_ROLE (msg_sender e) (roles s)) (\<lambda>_.
     and_then (require (newRate \<le> 2000) ''Reward rate cannot exceed 20%'') (\<lambda>_.
     Inr (s\<lparr>rewardRate := newRate\<rparr>)))"

definition pendingRewards :: "env \<Rightarrow> address \<Rightarrow> token_state \<Rightarrow> error + uint256" where
  "pendingRewards e user s =
     (let userStake = stakes s user in
      if amount userStake = 0 then Inr (rewards s user)
      else
        and_then (checked_sub (block_timestamp e) (timestamp userStake)) (\<lambda>timeStaked.
        and_then (checked_mul (amount userStake) (rewardRate s)) (\<lambda>p1.
        and_then (checked_mul p1 timeStaked) (\<lambda>p2.
        and_then (checked_mul SECONDS_PER_YEAR 10000) (\<lambda>d.
        and_then (checked_div p2 d) (\<lambda>pendingReward.
        checked_add (rewards s user) pendingReward))))))"

text \<open>\<^verbatim>\<open>getStakeInfo\<close> returns (amount, timestamp, lockPeriod, unlockTime, canUnstake).\<close>

definition getStakeInfo ::
  "env \<Rightarrow> address \<Rightarrow> token_state \<Rightarrow> error + (uint256 \<times> uint256 \<times> uint256 \<times> uint256 \<times> bool)" where
  "getStakeInfo e user s =
     (let userStake = stakes s user in
      and_then (checked_add (timestamp userStake) (lockPeriod userStake)) (\<lambda>unlockTime.
      Inr (amount userStake, timestamp userStake, lockPeriod userStake, unlockTime,
           block_timestamp e \<ge> unlockTime)))"

definition getStakingAPR :: "uint256 \<Rightarrow> token_state \<Rightarrow> error + uint256" where
  "getStakingAPR lockP s =
     (let baseAPR = rewardRate s in
      if lockP \<ge> 365 * days then checked_add baseAPR 500
      else if lockP \<ge> 180 * days then checked_add baseAPR 300
      else if lockP \<ge> 90 * days then checked_add baseAPR 100
      else Inr baseAPR)"

definition whenPaused :: "token_state \<Rightarrow> error + unit" where
  "whenPaused s = require (paused s) ''Pausable: not paused''"

definition emergencyWithdraw :: "env \<Rightarrow> token_state \<Rightarrow> error + token_state" where
  "emergencyWithdraw e s =
     and_then (onlyRole DEFAULT_ADMIN_ROLE (msg_sender e) (roles s)) (\<lambda>_.
     and_then (whenPaused s) (\<lambda>_.
     let balance = balances s (address_this e) in
     if balance > 0 then erc20_transfer (address_this e) (msg_sender e) balance s
     else Inr s))"

section \<open>ValueNFT: the value registry, the valuation and the marketplace\<close>

record ValueData =
  contentId :: string
  creator :: address
  initialValue :: uint256
  currentValue :: uint256
  impactScore :: uint256
  engagementScore :: uint256
  qualityScore :: uint256
  viewCount :: uint256
  actionCount :: uint256
  mintTimestamp :: uint256
  lastValueUpdate :: uint256
  isListed :: bool
  listPrice :: uint256

text \<open>
  The contract's storage. \<open>owners\<close> and \<open>tokenURIs\<close> are the storage of the inherited
  ERC721 and ERC721URIStorage bases (a token exists when its owner is not the zero
  address), \<open>nft_roles\<close> that of AccessControl, \<open>tokenIdCounter\<close> the value of the
  \<^verbatim>\<open>Counters.Counter\<close>, which starts at zero. Token approvals and per-owner token
  counts are not represented: no function of the contract reads them.
\<close>

record nft_state =
  owners :: "uint256 \<Rightarrow> address"
  tokenURIs :: "uint256 \<Rightarrow> string"
  nft_roles :: "role \<Rightarrow> address \<Rightarrow> bool"
  tokenIdCounter :: uint256
  valueData :: "uint256 \<Rightarrow> ValueData"
  contentToToken :: "string \<Rightarrow> uint256"
  creatorTokens :: "address \<Rightarrow> uint256 list"
  tokenListings :: "uint256 \<Rightarrow> address"
  marketplaceFee :: uint256
  feeRecipient :: address

text \<open>A payable call also sees \<^verbatim>\<open>msg.value\<close>.\<close>

record call_env = env +
  msg_value :: uint256

definition BASE_VALUE :: uint256 where
  "BASE_VALUE = 10 ^ 18"

definition MAX_MULTIPLIER :: uint256 where
  "MAX_MULTIPLIER = 10000"

definition VALUE_DECAY_RATE :: uint256 where
  "VALUE_DECAY_RATE = 9950"

definition empty_ValueData :: ValueData where
  "empty_ValueData =
     \<lparr> contentId = [], creator = 0, initialValue = 0, currentValue = 0, impactScore = 0,
       engagementScore = 0, qualityScore = 0, viewCount = 0, actionCount = 0,
       mintTimestamp = 0, lastValueUpdate = 0, isListed = False, listPrice = 0 \<rparr>"

subsection \<open>The inherited token primitives\<close>

text \<open>
  Modelled from the spec: the OpenZeppelin bases that the contract imports (ERC721,
  ERC721URIStorage, ERC721Burnable, Counters) are not among the repository's sources. The
  specification takes them as the trusted ownership ledger: every existing asset has one
  owner, minting gives a new asset to a non-zero address, a transfer hands an existing
  asset from its owner to a non-zero address, and burning removes the asset.
\<close>

definition exists_token :: "uint256 \<Rightarrow> nft_state \<Rightarrow> bool" where
  "exists_token tokenId s = (owners s tokenId \<noteq> 0)"

definition ownerOf :: "uint256 \<Rightarrow> nft_state \<Rightarrow> error + address" where
  "ownerOf tokenId s =
     and_then (require (owners s tokenId \<noteq> 0) ''ERC721: invalid token ID'') (\<lambda>_.
     Inr (owners s tokenId))"

text \<open>
  \<^verbatim>\<open>_safeMint\<close> also asks a receiving contract to accept the token; the receiver is
  outside the ledger and is taken to accept.
\<close>

definition erc721_safeMint :: "address \<Rightarrow> uint256 \<Rightarrow> nft_state \<Rightarrow> error + nft_state" where
  "erc721_safeMint to tokenId s =
     and_then (require (to \<noteq> 0) ''ERC721: mint to the zero address'') (\<lambda>_.
     and_then (require (\<not> exists_token tokenId s) ''ERC721: token already minted'') (\<lambda>_.
     Inr (s\<lparr>owners := (owners s)(tokenId := to)\<rparr>)))"

definition setTokenURI :: "uint256 \<Rightarrow> string \<Rightarrow> nft_state \<Rightarrow> error + nft_state" where
  "setTokenURI tokenId uri s =
     and_then (require (exists_token tokenId s) ''ERC721URIStorage: URI set of nonexistent token'') (\<lambda>_.
     Inr (s\<lparr>tokenURIs := (tokenURIs s)(tokenId := uri)\<rparr>))"

definition erc721_transfer :: "address \<Rightarrow> address \<Rightarrow> uint256 \<Rightarrow> nft_state \<Rightarrow> error + nft_state" where
  "erc721_transfer from to tokenId s =
     and_then (ownerOf tokenId s) (\<lambda>owner.
     and_then (require (owner = from) ''ERC721: transfer from incorrect owner'') (\<lambda>_.
     and_then (require (to \<noteq> 0) ''ERC721: transfer to the zero address'') (\<lambda>_.
     Inr (s\<lparr>owners := (owners s)(tokenId := to)\<rparr>))))"

definition erc721_burn :: "uint256 \<Rightarrow> nft_state \<Rightarrow> error + nft_state" where
  "erc721_burn tokenId s =
     and_then (ownerOf tokenId s) (\<lambda>owner.
     Inr (s\<lparr>owners := (owners s)(tokenId := 0), tokenURIs := (tokenURIs s)(tokenId := [])\<rparr>))"

subsection \<open>The contract's functions\<close>

definition nft_constructor :: "address \<Rightarrow> address \<Rightarrow> address \<Rightarrow> address \<Rightarrow> nft_state" where
  "nft_constructor admin minter oracle recipient =
     (let rs0 = (\<lambda>r a. False);
          rs1 = rs0(DEFAULT_ADMIN_ROLE := (rs0 DEFAULT_ADMIN_ROLE)(admin := True));
          rs2 = rs1(MINTER_ROLE := (rs1 MINTER_ROLE)(minter := True));
          rs3 = rs2(ORACLE_ROLE := (rs2 ORACLE_ROLE)(oracle := True));
          rs4 = rs3(MARKETPLACE_ROLE := (rs3 MARKETPLACE_ROLE)(admin := True))
      in \<lparr> owners = (\<lambda>t. 0), tokenURIs = (\<lambda>t. []), nft_roles = rs4, tokenIdCounter = 0,
           valueData = (\<lambda>t. empty_ValueData), contentToToken = (\<lambda>c. 0),
           creatorTokens = (\<lambda>a. []), tokenListings = (\<lambda>t. 0), marketplaceFee = 250,
           feeRecipient = recipient \<rparr>)"

text \<open>\<^verbatim>\<open>mintValueNFT\<close> returns the new token id with the state.\<close>

definition mintValueNFT ::
  "call_env \<Rightarrow> address \<Rightarrow> string \<Rightarrow> string \<Rightarrow> uint256 \<Rightarrow> nft_state \<Rightarrow> error + (uint256 \<times> nft_state)" where
  "mintValueNFT e to cid uri initial s =
     and_then (onlyRole MINTER_ROLE (msg_sender e) (nft_roles s)) (\<lambda>_.
     and_then (require (contentToToken s cid = 0) ''Content already tokenized'') (\<lambda>_.
     and_then (require (initial \<ge> BASE_VALUE div 10) ''Initial value too low'') (\<lambda>_.
     let tokenId = tokenIdCounter s;
         s1 = s\<lparr>tokenIdCounter := tokenIdCounter s + 1\<rparr>
     in
     and_then (erc721_safeMint to tokenId s1) (\<lambda>s2.
     and_then (setTokenURI tokenId uri s2) (\<lambda>s3.
     let d = \<lparr> contentId = cid, creator = to, initialValue = initial, currentValue = initial,
               impactScore = 5000, engagementScore = 5000, qualityScore = 7500,
               viewCount = 0, actionCount = 0, mintTimestamp = block_timestamp e,
               lastValueUpdate = block_timestamp e, isListed = False, listPrice = 0 \<rparr>
     in Inr (tokenId,
             s3\<lparr>valueData := (valueData s3)(tokenId := d),
                contentToToken := (contentToToken s3)(cid := tokenId),
                creatorTokens := (creatorTokens s3)(to := creatorTokens s3 to @ [tokenId])\<rparr>))))))"

definition internal_calculateValue :: "call_env \<Rightarrow> uint256 \<Rightarrow> nft_state \<Rightarrow> error + uint256" where
  "internal_calculateValue e tokenId s =
     (let d = valueData s tokenId in
      and_then (checked_mul (impactScore d) 40) (\<lambda>i40.
      and_then (checked_mul (engagementScore d) 35) (\<lambda>e35.
      and_then (checked_add i40 e35) (\<lambda>ie.
      and_then (checked_mul (qualityScore d) 25) (\<lambda>q25.
      and_then (checked_add ie q25) (\<lambda>weighted.
      let compositeScore = weighted div 100 in
      and_then (checked_sub (block_timestamp e) (lastValueUpdate d)) (\<lambda>timeSinceUpdate.
      let decayPeriods = timeSinceUpdate div days in
      and_then (checked_exp VALUE_DECAY_RATE decayPeriods) (\<lambda>num.
      and_then (checked_exp 10000 decayPeriods) (\<lambda>den.
      and_then (checked_div num den) (\<lambda>decayMultiplier.
      and_then (if actionCount d > 0
                then and_then (checked_mul (actionCount d) 100) (\<lambda>bonus.
                     and_then (checked_add 10000 bonus) (\<lambda>m.
                     Inr (if m > MAX_MULTIPLIER then MAX_MULTIPLIER else m)))
                else Inr 10000) (\<lambda>actionMultiplier.
      and_then (checked_mul (initialValue d) compositeScore) (\<lambda>v1.
      and_then (checked_mul v1 actionMultiplier) (\<lambda>v2.
      and_then (checked_mul v2 decayMultiplier) (\<lambda>v3.
      let newValue = v3 div (10000 * 10000 * 10000) in
      Inr (if newValue < initialValue d div 10 then initialValue d div 10 else newValue)))))))))))))))"

definition updateValue ::
  "call_env \<Rightarrow> uint256 \<Rightarrow> uint256 \<Rightarrow> uint256 \<Rightarrow> uint256 \<Rightarrow> uint256 \<Rightarrow> uint256 \<Rightarrow> nft_state
     \<Rightarrow> error + nft_state" where
  "updateValue e tokenId newImpactScore newEngagementScore newQualityScore views actions s =
     and_then (onlyRole ORACLE_ROLE (msg_sender e) (nft_roles s)) (\<lambda>_.
     and_then (require (exists_token tokenId s) ''Token does not exist'') (\<lambda>_.
     let d1 = (valueData s tokenId)\<lparr>impactScore := newImpactScore,
                 engagementScore := newEngagementScore, qualityScore := newQualityScore,
                 viewCount := views, actionCount := actions\<rparr>;
         s1 = s\<lparr>valueData := (valueData s)(tokenId := d1)\<rparr>
     in
     and_then (internal_calculateValue e tokenId s1) (\<lambda>newValue.
     Inr (s1\<lparr>valueData := (valueData s1)(tokenId :=
                d1\<lparr>currentValue := newValue, lastValueUpdate := block_timestamp e\<rparr>)\<rparr>))))"

definition listNFT :: "call_env \<Rightarrow> uint256 \<Rightarrow> uint256 \<Rightarrow> nft_state \<Rightarrow> error + nft_state" where
  "listNFT e tokenId price s =
     and_then (ownerOf tokenId s) (\<lambda>owner.
     and_then (require (owner = msg_sender e) ''Not token owner'') (\<lambda>_.
     and_then (require (price > 0) ''Price must be greater than 0'') (\<lambda>_.
     and_then (require (\<not> isListed (valueData s tokenId)) ''Already listed'') (\<lambda>_.
     Inr (s\<lparr>valueData := (valueData s)(tokenId :=
                (valueData s tokenId)\<lparr>isListed := True, listPrice := price\<rparr>),
             tokenListings := (tokenListings s)(tokenId := msg_sender e)\<rparr>)))))"

definition unlistNFT :: "call_env \<Rightarrow> uint256 \<Rightarrow> nft_state \<Rightarrow> error + nft_state" where
  "unlistNFT e tokenId s =
     and_then (ownerOf tokenId s) (\<lambda>owner.
     and_then (require (owner = msg_sender e) ''Not token owner'') (\<lambda>_.
     and_then (require (isListed (valueData s tokenId)) ''Not listed'') (\<lambda>_.
     Inr (s\<lparr>valueData := (valueData s)(tokenId :=
                (valueData s tokenId)\<lparr>isListed := False, listPrice := 0\<rparr>),
             tokenListings := (tokenListings s)(tokenId := 0)\<rparr>))))"

text \<open>
  \<^verbatim>\<open>buyNFT\<close> returns the state with the two outgoing payments in the order the
  contract sends them: to the seller, then to the fee recipient. A receiver that
  refuses the payment reverts the call; receivers are outside the ledger and are
  taken to accept.
\<close>

definition buyNFT ::
  "call_env \<Rightarrow> uint256 \<Rightarrow> nft_state \<Rightarrow> error + (nft_state \<times> (address \<times> uint256) list)" where
  "buyNFT e tokenId s =
     and_then (require (isListed (valueData s tokenId)) ''NFT not listed'') (\<lambda>_.
     and_then (require (msg_value e = listPrice (valueData s tokenId)) ''Incorrect payment amount'') (\<lambda>_.
     and_then (ownerOf tokenId s) (\<lambda>seller.
     let price = msg_value e in
     and_then (checked_mul price (marketplaceFee s)) (\<lambda>scaled.
     let fee = scaled div 10000 in
     and_then (checked_sub price fee) (\<lambda>sellerAmount.
     let s1 = s\<lparr>valueData := (valueData s)(tokenId :=
                  (valueData s tokenId)\<lparr>isListed := False, listPrice := 0\<rparr>),
               tokenListings := (tokenListings s)(tokenId := 0)\<rparr>
     in
     and_then (erc721_transfer seller (msg_sender e) tokenId s1) (\<lambda>s2.
     Inr (s2, [(seller, sellerAmount), (feeRecipient s2, fee)])))))))"

definition getValueData :: "uint256 \<Rightarrow> nft_state \<Rightarrow> error + ValueData" where
  "getValueData tokenId s =
     and_then (require (exists_token tokenId s) ''Token does not exist'') (\<lambda>_.
     Inr (valueData s tokenId))"

definition getCurrentValue :: "call_env \<Rightarrow> uint256 \<Rightarrow> nft_state \<Rightarrow> error + uint256" where
  "getCurrentValue e tokenId s =
     and_then (require (exists_token tokenId s) ''Token does not exist'') (\<lambda>_.
     internal_calculateValue e tokenId s)"

definition updateMarketplaceFee :: "call_env \<Rightarrow> uint256 \<Rightarrow> nft_state \<Rightarrow> error + nft_state" where
  "updateMarketplaceFee e newFee s =
     and_then (onlyRole DEFAULT_ADMIN_ROLE (msg_sender e) (nft_roles s)) (\<lambda>_.
     and_then (require (newFee \<le> 1000) ''Fee cannot exceed 10%'') (\<lambda>_.
     Inr (s\<lparr>marketplaceFee := newFee\<rparr>)))"

definition updateFeeRecipient :: "call_env \<Rightarrow> address \<Rightarrow> nft_state \<Rightarrow> error + nft_state" where
  "updateFeeRecipient e newRecipient s =
     and_then (onlyRole DEFAULT_ADMIN_ROLE (msg_sender e) (nft_roles s)) (\<lambda>_.
     and_then (require (newRecipient \<noteq> 0) ''Invalid recipient'') (\<lambda>_.
     Inr (s\<lparr>feeRecipient := newRecipient\<rparr>)))"

definition internal_burn :: "uint256 \<Rightarrow> nft_state \<Rightarrow> error + nft_state" where
  "internal_burn tokenId s =
     and_then (erc721_burn tokenId s) (\<lambda>s1.
     let cid = contentId (valueData s1 tokenId);
         s2 = s1\<lparr>valueData := (valueData s1)(tokenId := empty_ValueData)\<rparr>;
         s3 = s2\<lparr>contentToToken := (contentToToken s2)(cid := 0)\<rparr>
     in
     Inr (if tokenListings s3 tokenId \<noteq> 0
          then s3\<lparr>tokenListings := (tokenListings s3)(tokenId := 0)\<rparr>
          else s3))"

section \<open>Reachable states\<close>

text \<open>
  The states of the token contract that a sequence of successful calls can produce from
  a deployment. The entry points written in the contract appear one by one. The entry
  points inherited from ERC20 and ERC20Burnable (transfer, transferFrom, approve, burn,
  burnFrom) write balances, allowances and the total supply only, and those inherited
  from AccessControl write the role table only: \<open>after_erc20\<close> and \<open>after_access\<close>
  allow any such change, which covers them all.
\<close>

inductive reachable :: "token_state \<Rightarrow> bool" where
  deployed: "constructor e admin minter rewardsManager = Inr s \<Longrightarrow> reachable s"
| after_mint: "reachable s \<Longrightarrow> mint e to amt s = Inr s' \<Longrightarrow> reachable s'"
| after_pause: "reachable s \<Longrightarrow> pause e s = Inr s' \<Longrightarrow> reachable s'"
| after_unpause: "reachable s \<Longrightarrow> unpause e s = Inr s' \<Longrightarrow> reachable s'"
| after_stake: "reachable s \<Longrightarrow> stake e amt lockP s = Inr s' \<Longrightarrow> reachable s'"
| after_unstake: "reachable s \<Longrightarrow> unstake e amt s = Inr s' \<Longrightarrow> reachable s'"
| after_claimRewards: "reachable s \<Longrightarrow> claimRewards e s = Inr s' \<Longrightarrow> reachable s'"
| after_distributeRewards: "reachable s \<Longrightarrow> distributeRewards e amt s = Inr s' \<Longrightarrow> reachable s'"
| after_updateRewardRate: "reachable s \<Longrightarrow> updateRewardRate e newRate s = Inr s' \<Longrightarrow> reachable s'"
| after_emergencyWithdraw: "reachable s \<Longrightarrow> emergencyWithdraw e s = Inr s' \<Longrightarrow> reachable s'"
| after_erc20: "reachable s \<Longrightarrow> reachable (s\<lparr>balances := b, totalSupply := ts\<rparr>)"
| after_access: "reachable s \<Longrightarrow> reachable (s\<lparr>roles := rs\<rparr>)"

text \<open>The sum of the staked amounts over all accounts, read as natural numbers.\<close>

definition staked_sum :: "token_state \<Rightarrow> nat" where
  "staked_sum s = (\<Sum>a\<in>UNIV. unat (amount (stakes s a)))"

text \<open>
  The states of the value registry that successful calls can produce. Every inherited
  way to move a token (transferFrom, safeTransferFrom) ends in the base transfer, and
  the inherited \<^verbatim>\<open>burn\<close> ends in the overridden \<^verbatim>\<open>_burn\<close>, whoever the caller is.
\<close>

inductive nft_reachable :: "nft_state \<Rightarrow> bool" where
  nft_deployed: "nft_reachable (nft_constructor admin minter oracle recipient)"
| after_mintValueNFT:
    "nft_reachable s \<Longrightarrow> mintValueNFT e to cid uri initial s = Inr (tokenId, s') \<Longrightarrow> nft_reachable s'"
| after_updateValue:
    "nft_reachable s \<Longrightarrow> updateValue e tokenId i g q views actions s = Inr s' \<Longrightarrow> nft_reachable s'"
| after_listNFT: "nft_reachable s \<Longrightarrow> listNFT e tokenId price s = Inr s' \<Longrightarrow> nft_reachable s'"
| after_unlistNFT: "nft_reachable s \<Longrightarrow> unlistNFT e tokenId s = Inr s' \<Longrightarrow> nft_reachable s'"
| after_buyNFT: "nft_reachable s \<Longrightarrow> buyNFT e tokenId s = Inr (s', payments) \<Longrightarrow> nft_reachable s'"
| after_updateMarketplaceFee:
    "nft_reachable s \<Longrightarrow> updateMarketplaceFee e newFee s = Inr s' \<Longrightarrow> nft_reachable s'"
| after_updateFeeRecipient:
    "nft_reachable s \<Longrightarrow> updateFeeRecipient e newRecipient s = Inr s' \<Longrightarrow> nft_reachable s'"
| after_transfer: "nft_reachable s \<Longrightarrow> erc721_transfer from to tokenId s = Inr s' \<Longrightarrow> nft_reachable s'"
| after_burn: "nft_reachable s \<Longrightarrow> internal_burn tokenId s = Inr s' \<Longrightarrow> nft_reachable s'"
| after_nft_access: "nft_reachable s \<Longrightarrow> nft_reachable (s\<lparr>nft_roles := rs\<rparr>)"


text \<open>
  The weighted score as the specification words it, on natural numbers:
  (impact * 40 + engagement * 35 + quality * 25) / 100.
\<close>

definition spec_composite :: "nat \<Rightarrow> nat \<Rightarrow> nat \<Rightarrow> nat" where
  "spec_composite i g q = (i * 40 + g * 35 + q * 25) div 100"

text \<open>The value floor: every record's current value is at least a tenth of its initial value.\<close>

definition value_floor :: "nft_state \<Rightarrow> bool" where
  "value_floor s = (\<forall>t. initialValue (valueData s t) div 10 \<le> currentValue (valueData s t))"

section \<open>Basic facts\<close>

lemmas arith_defs = checked_add_def checked_mul_def checked_sub_def checked_exp_def
  checked_div_def require_def onlyRole_def days_def

lemmas token_defs = constructor_def erc20_mint_def erc20_transfer_def beforeTokenTransfer_def
  INITIAL_SUPPLY_def MAX_SUPPLY_def SECONDS_PER_YEAR_def mint_def pause_def unpause_def stake_def
  unstake_def claimRewards_def internal_updateRewards_def internal_claimRewards_def
  distributeRewards_def updateRewardRate_def getStakeInfo_def pendingRewards_def whenPaused_def
  emergencyWithdraw_def

lemmas nft_defs = nft_constructor_def mintValueNFT_def getCurrentValue_def
  internal_calculateValue_def BASE_VALUE_def erc721_safeMint_def setTokenURI_def
  exists_token_def ownerOf_def erc721_transfer_def erc721_burn_def internal_burn_def
  VALUE_DECAY_RATE_def MAX_MULTIPLIER_def empty_ValueData_def updateValue_def listNFT_def
  unlistNFT_def buyNFT_def updateMarketplaceFee_def updateFeeRecipient_def

lemma and_then_Inr: "and_then m f = Inr y \<longleftrightarrow> (\<exists>x. m = Inr x \<and> f x = Inr y)"
  by (cases m) auto

lemma require_Inr: "require c msg = Inr u \<longleftrightarrow> c"
  by (simp add: require_def)

lemma onlyRole_Inr: "onlyRole r a rs = Inr u \<longleftrightarrow> rs r a"
  by (simp add: onlyRole_def)

lemma checked_add_Inr:
  "checked_add a b = Inr c \<longleftrightarrow> unat a + unat b < 2 ^ 256 \<and> c = a + b \<and> unat c = unat a + unat b"
  by (auto simp: checked_add_def unat_word_ariths)

lemma checked_sub_Inr:
  "checked_sub a b = Inr c \<longleftrightarrow> unat b \<le> unat a \<and> c = a - b \<and> unat c = unat a - unat b"
  by (auto simp: checked_sub_def word_le_nat_alt unat_sub)

lemma checked_mul_Inr:
  "checked_mul a b = Inr c \<longleftrightarrow> unat a * unat b < 2 ^ 256 \<and> c = a * b \<and> unat c = unat a * unat b"
  by (auto simp: checked_mul_def unat_word_ariths)

lemma checked_div_Inr:
  "checked_div a b = Inr c \<longleftrightarrow> b \<noteq> 0 \<and> c = a div b \<and> unat c = unat a div unat b"
  by (auto simp: checked_div_def unat_div)

lemma unat_word_power: "unat (a ^ n) = unat a ^ n mod 2 ^ 256" for a :: uint256
proof (induction n)
  case 0
  show ?case by simp
next
  case (Suc n)
  have "unat (a ^ Suc n) = unat a * unat (a ^ n) mod 2 ^ 256"
    by (simp add: unat_word_ariths)
  also have "\<dots> = unat a * (unat a ^ n mod 2 ^ 256) mod 2 ^ 256"
    by (simp only: Suc.IH)
  also have "\<dots> = unat a * unat a ^ n mod 2 ^ 256"
    by (rule mod_mult_right_eq)
  finally show ?case by simp
qed

lemma checked_exp_Inr:
  "checked_exp a n = Inr c \<longleftrightarrow> unat a ^ unat n < 2 ^ 256 \<and> c = a ^ unat n \<and> unat c = unat a ^ unat n"
  by (auto simp: checked_exp_def unat_word_power)

lemma checked_exp_unat: "checked_exp a n = Inr c \<Longrightarrow> unat c = unat a ^ unat n"
  using checked_exp_Inr [of a n c] by blast

lemma checked_div_unat: "checked_div a b = Inr c \<Longrightarrow> unat c = unat a div unat b"
  using checked_div_Inr [of a b c] by blast

lemma checked_sub_unat: "checked_sub a b = Inr c \<Longrightarrow> unat c = unat a - unat b"
  using checked_sub_Inr [of a b c] by blast

lemma unat_add_ok: "unat a + unat b < 2 ^ 256 \<Longrightarrow> unat (a + b) = unat a + unat b"
  for a b :: uint256
  by (simp add: unat_word_ariths)

lemma unat_mul_ok: "unat a * unat b < 2 ^ 256 \<Longrightarrow> unat (a * b) = unat a * unat b"
  for a b :: uint256
  by (simp add: unat_word_ariths)

lemma checked_mul_ok:
  "unat a * unat b < 2 ^ 256 \<Longrightarrow> checked_mul a b = Inr (a * b)"
  by (simp add: checked_mul_def)

lemma checked_add_ok:
  "unat a + unat b < 2 ^ 256 \<Longrightarrow> checked_add a b = Inr (a + b)"
  by (simp add: checked_add_def)

lemma word_div_10_le: "a div 10 \<le> a" for a :: uint256
  by (simp add: word_le_nat_alt unat_div)

text \<open>What the internal steps of the token contract leave untouched.\<close>

lemma internal_updateRewards_frame:
  "internal_updateRewards e u s = Inr s' \<Longrightarrow>
     totalStaked s' = totalStaked s \<and> rewardPool s' = rewardPool s \<and> balances s' = balances s \<and>
     paused s' = paused s \<and> rewardRate s' = rewardRate s \<and>
     (\<forall>a. amount (stakes s' a) = amount (stakes s a) \<and> lockPeriod (stakes s' a) = lockPeriod (stakes s a)) \<and>
     (\<forall>a. a \<noteq> u \<longrightarrow> stakes s' a = stakes s a \<and> rewards s' a = rewards s a)"
  by (auto simp: internal_updateRewards_def and_then_Inr Let_def split: if_splits)

lemma erc20_transfer_frame:
  "erc20_transfer from to amt s = Inr s' \<Longrightarrow>
     totalStaked s' = totalStaked s \<and> rewardPool s' = rewardPool s \<and> stakes s' = stakes s \<and>
     rewards s' = rewards s \<and> paused s' = paused s \<and> rewardRate s' = rewardRate s"
  by (auto simp: erc20_transfer_def and_then_Inr Let_def)

lemma erc20_mint_frame:
  "erc20_mint to amt s = Inr s' \<Longrightarrow>
     totalStaked s' = totalStaked s \<and> rewardPool s' = rewardPool s \<and> stakes s' = stakes s \<and>
     rewards s' = rewards s \<and> paused s' = paused s \<and> rewardRate s' = rewardRate s"
  by (auto simp: erc20_mint_def and_then_Inr Let_def)

lemma internal_claimRewards_frame:
  "internal_claimRewards e s = Inr s' \<Longrightarrow>
     totalStaked s' = totalStaked s \<and> stakes s' = stakes s \<and> paused s' = paused s \<and>
     rewardRate s' = rewardRate s"
  by (auto simp: internal_claimRewards_def and_then_Inr Let_def dest!: erc20_transfer_frame split: if_splits)

section \<open>Re-tokenizing a content identifier\<close>

text \<open>
  Claim C2: \<^verbatim>\<open>mintValueNFT\<close> rejects a content identifier that is already mapped to a
  minted asset, so that content identifiers and assets correspond one to one.

  The guard compares \<open>contentToToken\<close> with zero, and zero is also the identifier of
  the first token, because the counter starts there. On a fresh contract the minter
  mints ''lesson-1'' and gets token 0; the mapping still reads 0 for ''lesson-1'', the
  second mint of the same identifier passes the guard and gets token 1, and both live
  tokens carry the identifier.
\<close>

theorem mintValueNFT_first_content_minted_twice:
  "(case mintValueNFT \<lparr>msg_sender = 2, block_timestamp = 1000, address_this = 9, msg_value = 0\<rparr>
           5 ''lesson-1'' ''uri-1'' (10 ^ 18) (nft_constructor 1 2 3 4) of
      Inl err \<Rightarrow> False
    | Inr (t1, s1) \<Rightarrow> t1 = 0 \<and> contentToToken s1 ''lesson-1'' = 0 \<and>
        (case mintValueNFT \<lparr>msg_sender = 2, block_timestamp = 2000, address_this = 9, msg_value = 0\<rparr>
                6 ''lesson-1'' ''uri-2'' (10 ^ 18) s1 of
           Inl err \<Rightarrow> False
         | Inr (t2, s2) \<Rightarrow> t2 = 1 \<and> exists_token 0 s2 \<and> exists_token 1 s2 \<and>
             contentId (valueData s2 0) = ''lesson-1'' \<and>
             contentId (valueData s2 1) = ''lesson-1''))"
  by (simp add: arith_defs nft_defs Let_def)

section \<open>The unlock time\<close>

text \<open>
  Claim C3: the unlock time that \<^verbatim>\<open>unstake\<close> enforces and \<^verbatim>\<open>getStakeInfo\<close> reports is
  the time of the account's last stake plus its lock period, and no other operation,
  \<^verbatim>\<open>claimRewards\<close> in particular, changes it.

  The lock is measured from the \<open>timestamp\<close> field, which every reward settlement of a
  non-empty stake overwrites. The admin stakes 500 for 30 days at time 1000: the unlock
  time is 1000 + 30 days. A \<^verbatim>\<open>claimRewards\<close> on day 29 moves it to 1000 + 59 days, and
  the \<^verbatim>\<open>unstake\<close> at 1000 + 30 days is refused.
\<close>

theorem claimRewards_moves_unlock_time:
  "(case constructor \<lparr>msg_sender = 1, block_timestamp = 0, address_this = 9\<rparr> 1 2 3 of
      Inl err \<Rightarrow> False
    | Inr s0 \<Rightarrow>
       (case stake \<lparr>msg_sender = 1, block_timestamp = 1000, address_this = 9\<rparr> 500 (30 * days) s0 of
          Inl err \<Rightarrow> False
        | Inr s1 \<Rightarrow>
            getStakeInfo \<lparr>msg_sender = 1, block_timestamp = 1000, address_this = 9\<rparr> 1 s1
              = Inr (500, 1000, 30 * days, 1000 + 30 * days, False) \<and>
           (case claimRewards \<lparr>msg_sender = 1, block_timestamp = 1000 + 29 * days, address_this = 9\<rparr> s1 of
              Inl err \<Rightarrow> False
            | Inr s2 \<Rightarrow>
                getStakeInfo \<lparr>msg_sender = 1, block_timestamp = 1000 + 30 * days, address_this = 9\<rparr> 1 s2
                  = Inr (500, 1000 + 29 * days, 30 * days, 1000 + 59 * days, False) \<and>
                unstake \<lparr>msg_sender = 1, block_timestamp = 1000 + 30 * days, address_this = 9\<rparr> 500 s2
                  = Inl (Revert ''Lock period not expired''))))"
  by (simp add: arith_defs token_defs Let_def)

section \<open>The emergency withdrawal\<close>

text \<open>
  Claim C10: \<^verbatim>\<open>emergencyWithdraw\<close>, which the admin can call only while the token is
  paused, transfers the whole token balance held by the contract to the caller and
  leaves the staking and reward records as they are.

  The modifier demands a paused token and the transfer demands an unpaused one. With
  500 tokens staked and the token paused, the admin's call reverts in the transfer and
  nothing moves.
\<close>

theorem emergencyWithdraw_reverts_while_paused:
  "(case constructor \<lparr>msg_sender = 1, block_timestamp = 0, address_this = 9\<rparr> 1 2 3 of
      Inl err \<Rightarrow> False
    | Inr s0 \<Rightarrow>
       (case stake \<lparr>msg_sender = 1, block_timestamp = 1000, address_this = 9\<rparr> 500 (30 * days) s0 of
          Inl err \<Rightarrow> False
        | Inr s1 \<Rightarrow>
           (case pause \<lparr>msg_sender = 1, block_timestamp = 2000, address_this = 9\<rparr> s1 of
              Inl err \<Rightarrow> False
            | Inr s2 \<Rightarrow> balances s2 9 = 500 \<and> totalStaked s2 = 500 \<and>
                emergencyWithdraw \<lparr>msg_sender = 1, block_timestamp = 3000, address_this = 9\<rparr> s2
                  = Inl (Revert ''ERC20Pausable: token transfer while paused''))))"
  by (simp add: arith_defs token_defs Let_def)

text \<open>
  The same for every state: a call that returns has moved nothing, and a call made
  while the contract holds tokens does not return.
\<close>

lemma emergencyWithdraw_moves_nothing:
  "emergencyWithdraw e s = Inr s' \<Longrightarrow> s' = s \<and> balances s (address_this e) = 0"
  by (auto simp: emergencyWithdraw_def whenPaused_def erc20_transfer_def beforeTokenTransfer_def
      and_then_Inr require_Inr Let_def word_greater_zero_iff split: if_splits)

section \<open>The staked total\<close>

lemma staked_sum_change:
  assumes "\<forall>a. a \<noteq> x \<longrightarrow> amount (stakes s' a) = amount (stakes s a)"
  shows "staked_sum s' + unat (amount (stakes s x)) = staked_sum s + unat (amount (stakes s' x))"
proof -
  let ?f = "\<lambda>t a. unat (amount (stakes t a))"
  have rest: "sum (?f s') (UNIV - {x}) = sum (?f s) (UNIV - {x})"
    by (rule sum.cong) (use assms in auto)
  have "staked_sum s' = ?f s' x + sum (?f s') (UNIV - {x})"
    unfolding staked_sum_def by (rule sum.remove) auto
  moreover have "staked_sum s = ?f s x + sum (?f s) (UNIV - {x})"
    unfolding staked_sum_def by (rule sum.remove) auto
  ultimately show ?thesis using rest by simp
qed

lemma staked_sum_same:
  assumes "\<forall>a. amount (stakes s' a) = amount (stakes s a)"
  shows "staked_sum s' = staked_sum s"
  using assms by (simp add: staked_sum_def)

lemma stake_effect:
  assumes "stake e amt lockP s = Inr s'"
  shows "unat (totalStaked s') = unat (totalStaked s) + unat amt"
    and "unat (amount (stakes s' (msg_sender e))) = unat (amount (stakes s (msg_sender e))) + unat amt"
    and "\<forall>a. a \<noteq> msg_sender e \<longrightarrow> amount (stakes s' a) = amount (stakes s a)"
  using assms
  by (auto simp: stake_def and_then_Inr require_Inr checked_add_Inr Let_def
      dest!: internal_updateRewards_frame erc20_transfer_frame)

lemma unstake_effect:
  assumes "unstake e amt s = Inr s'"
  shows "unat (totalStaked s') = unat (totalStaked s) - unat amt"
    and "unat amt \<le> unat (totalStaked s)"
    and "unat (amount (stakes s' (msg_sender e))) = unat (amount (stakes s (msg_sender e))) - unat amt"
    and "unat amt \<le> unat (amount (stakes s (msg_sender e)))"
    and "\<forall>a. a \<noteq> msg_sender e \<longrightarrow> amount (stakes s' a) = amount (stakes s a)"
  using assms
  by (auto simp: unstake_def and_then_Inr require_Inr checked_sub_Inr Let_def
      dest!: internal_updateRewards_frame erc20_transfer_frame internal_claimRewards_frame)


lemma stake_preserves_total:
  assumes "unat (totalStaked s) = staked_sum s" "stake e amt lockP s = Inr s'"
  shows "unat (totalStaked s') = staked_sum s'"
  using assms(1) stake_effect [OF assms(2)] staked_sum_change [of "msg_sender e" s' s]
  by simp

lemma unstake_preserves_total:
  assumes "unat (totalStaked s) = staked_sum s" "unstake e amt s = Inr s'"
  shows "unat (totalStaked s') = staked_sum s'"
  using assms(1) unstake_effect [OF assms(2)] staked_sum_change [of "msg_sender e" s' s]
  by simp

lemma constructor_total: "constructor e admin minter rm = Inr s \<Longrightarrow> unat (totalStaked s) = staked_sum s"
  by (auto simp: constructor_def and_then_Inr staked_sum_def Let_def dest!: erc20_mint_frame)

lemma reachable_total: "reachable s \<Longrightarrow> unat (totalStaked s) = staked_sum s"
proof (induction rule: reachable.induct)
  case (deployed e admin minter rewardsManager s)
  then show ?case by (rule constructor_total)
next
  case (after_mint s e to amt s')
  then show ?case
    by (auto simp: mint_def and_then_Inr staked_sum_def dest!: erc20_mint_frame)
next
  case (after_pause s e s')
  then show ?case by (auto simp: pause_def and_then_Inr staked_sum_def)
next
  case (after_unpause s e s')
  then show ?case by (auto simp: unpause_def and_then_Inr staked_sum_def)
next
  case (after_stake s e amt lockP s')
  then show ?case by (simp add: stake_preserves_total)
next
  case (after_unstake s e amt s')
  then show ?case by (simp add: unstake_preserves_total)
next
  case (after_claimRewards s e s')
  then show ?case
    by (auto simp: claimRewards_def and_then_Inr staked_sum_def
        dest!: internal_updateRewards_frame internal_claimRewards_frame)
next
  case (after_distributeRewards s e amt s')
  then show ?case
    by (auto simp: distributeRewards_def and_then_Inr staked_sum_def dest!: erc20_transfer_frame)
next
  case (after_updateRewardRate s e newRate s')
  then show ?case by (auto simp: updateRewardRate_def and_then_Inr staked_sum_def)
next
  case (after_emergencyWithdraw s e s')
  then show ?case
    by (auto simp: emergencyWithdraw_def and_then_Inr staked_sum_def Let_def
        dest!: erc20_transfer_frame split: if_splits)
next
  case (after_erc20 s b ts)
  then show ?case by (simp add: staked_sum_def)
next
  case (after_access s rs)
  then show ?case by (simp add: staked_sum_def)
qed

lemma amount_le_staked_sum: "unat (amount (stakes s a)) \<le> staked_sum s"
proof -
  have "staked_sum s = unat (amount (stakes s a)) + sum (\<lambda>x. unat (amount (stakes s x))) (UNIV - {a})"
    unfolding staked_sum_def by (rule sum.remove) auto
  then show ?thesis by simp
qed

text \<open>
  Claim C6: in every reachable state \<open>totalStaked\<close> equals the sum of the staked
  amounts over all accounts; every successful \<^verbatim>\<open>stake\<close> and \<^verbatim>\<open>unstake\<close> preserves the
  equality; no sequence of operations makes \<open>totalStaked\<close> or a reward balance
  negative.

  The equality is between natural numbers, so it also says that neither side ever
  wrapped around; in particular no account's stake exceeds the total, and the
  subtraction in \<^verbatim>\<open>unstake\<close> cannot underflow. The counters are unsigned words, which
  have no negative values.
\<close>

theorem totalStaked_equals_sum_of_stakes:
  assumes "reachable s"
  shows "unat (totalStaked s) = staked_sum s
    \<and> (\<forall>e amt lockP s'. stake e amt lockP s = Inr s' \<longrightarrow> unat (totalStaked s') = staked_sum s')
    \<and> (\<forall>e amt s'. unstake e amt s = Inr s' \<longrightarrow> unat (totalStaked s') = staked_sum s')
    \<and> (\<forall>a. amount (stakes s a) \<le> totalStaked s)
    \<and> 0 \<le> uint (totalStaked s) \<and> (\<forall>a. 0 \<le> uint (rewards s a))"
proof -
  have t: "unat (totalStaked s) = staked_sum s" using assms by (rule reachable_total)
  have "\<forall>a. amount (stakes s a) \<le> totalStaked s"
    using t amount_le_staked_sum [of s] by (simp add: word_le_nat_alt)
  then show ?thesis
    using t stake_preserves_total [OF t] unstake_preserves_total [OF t] by auto
qed

theorem totalStaked_equals_sum_of_stakes_witness:
  "\<exists>s0 s1 s2. constructor \<lparr>msg_sender = 1, block_timestamp = 0, address_this = 9\<rparr> 1 2 3 = Inr s0
     \<and> stake \<lparr>msg_sender = 1, block_timestamp = 1000, address_this = 9\<rparr> 500 (30 * days) s0 = Inr s1
     \<and> unstake \<lparr>msg_sender = 1, block_timestamp = 1000 + 30 * days, address_this = 9\<rparr> 200 s1 = Inr s2
     \<and> reachable s2
     \<and> totalStaked s1 = 500 \<and> staked_sum s1 = 500
     \<and> totalStaked s2 = 300 \<and> staked_sum s2 = 300
     \<and> amount (stakes s2 1) \<le> totalStaked s2"
proof -
  obtain s0 where s0: "constructor \<lparr>msg_sender = 1, block_timestamp = 0, address_this = 9\<rparr> 1 2 3 = Inr s0"
    by (simp add: arith_defs token_defs Let_def)
  obtain s1 where s1: "stake \<lparr>msg_sender = 1, block_timestamp = 1000, address_this = 9\<rparr> 500 (30 * days) s0 = Inr s1"
    and t1: "totalStaked s1 = 500"
    and o1: "stakes s1 1 = \<lparr>amount = 500, timestamp = 1000, rewardDebt = 0, lockPeriod = 30 * days\<rparr>"
      "rewards s1 1 = 0" "rewardRate s1 = 100" "balances s1 9 = 500" "\<not> paused s1"
    using s0 by (auto simp add: arith_defs token_defs Let_def)
  obtain s2 where s2: "unstake \<lparr>msg_sender = 1, block_timestamp = 1000 + 30 * days, address_this = 9\<rparr> 200 s1 = Inr s2"
    and t2: "totalStaked s2 = 300"
    using t1 o1
    by (simp add: arith_defs unstake_def internal_updateRewards_def internal_claimRewards_def
        erc20_transfer_def beforeTokenTransfer_def SECONDS_PER_YEAR_def Let_def)
  have r0: "reachable s0" using s0 by (rule reachable.deployed)
  have r1: "reachable s1" using r0 s1 by (rule reachable.after_stake)
  have r2: "reachable s2" using r1 s2 by (rule reachable.after_unstake)
  have "unat (totalStaked s1) = staked_sum s1"
    using totalStaked_equals_sum_of_stakes [OF r0] s1 by blast
  then have e1: "staked_sum s1 = 500" using t1 by simp
  have "unat (totalStaked s2) = staked_sum s2"
    using totalStaked_equals_sum_of_stakes [OF r1] s2 by blast
  then have e2: "staked_sum s2 = 300" using t2 by simp
  have le: "amount (stakes s2 1) \<le> totalStaked s2"
    using totalStaked_equals_sum_of_stakes [OF r2] by blast
  show ?thesis using s0 s1 s2 r2 t1 e1 t2 e2 le by blast
qed

section \<open>Paying out of the reward pool\<close>

lemma internal_claimRewards_short:
  "rewardPool s < rewards s (msg_sender e) \<Longrightarrow>
     internal_claimRewards e s = Inl (Revert ''Insufficient reward pool'')"
  by (auto simp: internal_claimRewards_def require_def Let_def word_greater_zero_iff)

lemma internal_claimRewards_pool:
  "internal_claimRewards e s = Inr s' \<Longrightarrow>
     rewards s (msg_sender e) \<le> rewardPool s \<and>
     unat (rewardPool s') = unat (rewardPool s) - unat (rewards s (msg_sender e))"
  by (auto simp: internal_claimRewards_def and_then_Inr require_Inr checked_sub_Inr Let_def
      word_greater_zero_iff dest!: erc20_transfer_frame split: if_splits)

text \<open>
  Claim C4: whenever a payout is attempted, by \<^verbatim>\<open>claimRewards\<close> or by the payout step of
  \<^verbatim>\<open>unstake\<close>, and the reward pool is smaller than the account's reward balance, the
  whole operation fails with "Insufficient reward pool" and nothing changes; no part
  of the reward is paid; the pool never becomes negative.

  The reward balance meant is the settled one, which the payout step reads. A reverted
  call leaves the state it started from (\<open>commit\<close>). A payout that succeeds takes the
  reward out of a pool that is at least as large, so the subtraction never wraps; the
  pool is an unsigned word.
\<close>

theorem payout_fails_when_pool_is_short:
  "(rewardPool s < rewards s (msg_sender e) \<longrightarrow>
      internal_claimRewards e s = Inl (Revert ''Insufficient reward pool''))
   \<and> (\<forall>s1. internal_updateRewards e (msg_sender e) s = Inr s1
           \<and> rewardPool s1 < rewards s1 (msg_sender e) \<longrightarrow>
         claimRewards e s = Inl (Revert ''Insufficient reward pool'')
         \<and> commit s (claimRewards e s) = s)
   \<and> (\<forall>s1 unlock. amt \<le> amount (stakes s (msg_sender e))
           \<and> checked_add (timestamp (stakes s (msg_sender e))) (lockPeriod (stakes s (msg_sender e))) = Inr unlock
           \<and> unlock \<le> block_timestamp e
           \<and> internal_updateRewards e (msg_sender e) s = Inr s1
           \<and> rewardPool s1 < rewards s1 (msg_sender e) \<longrightarrow>
         unstake e amt s = Inl (Revert ''Insufficient reward pool'')
         \<and> commit s (unstake e amt s) = s)
   \<and> (\<forall>s'. internal_claimRewards e s = Inr s' \<longrightarrow>
         rewards s (msg_sender e) \<le> rewardPool s
         \<and> unat (rewardPool s') = unat (rewardPool s) - unat (rewards s (msg_sender e)))
   \<and> 0 \<le> uint (rewardPool s)"
proof -
  have a: "\<forall>s1. internal_updateRewards e (msg_sender e) s = Inr s1
           \<and> rewardPool s1 < rewards s1 (msg_sender e) \<longrightarrow>
         claimRewards e s = Inl (Revert ''Insufficient reward pool'')
         \<and> commit s (claimRewards e s) = s"
    by (simp add: claimRewards_def commit_def internal_claimRewards_short)
  have b: "\<forall>s1 unlock. amt \<le> amount (stakes s (msg_sender e))
           \<and> checked_add (timestamp (stakes s (msg_sender e))) (lockPeriod (stakes s (msg_sender e))) = Inr unlock
           \<and> unlock \<le> block_timestamp e
           \<and> internal_updateRewards e (msg_sender e) s = Inr s1
           \<and> rewardPool s1 < rewards s1 (msg_sender e) \<longrightarrow>
         unstake e amt s = Inl (Revert ''Insufficient reward pool'')
         \<and> commit s (unstake e amt s) = s"
    by (simp add: unstake_def commit_def internal_claimRewards_short require_def Let_def)
  have c: "\<forall>s'. internal_claimRewards e s = Inr s' \<longrightarrow>
         rewards s (msg_sender e) \<le> rewardPool s
         \<and> unat (rewardPool s') = unat (rewardPool s) - unat (rewards s (msg_sender e))"
    using internal_claimRewards_pool [of e s] by blast
  have d: "rewardPool s < rewards s (msg_sender e) \<longrightarrow>
      internal_claimRewards e s = Inl (Revert ''Insufficient reward pool'')"
    using internal_claimRewards_short [of s e] by blast
  have "0 \<le> uint (rewardPool s)" by simp
  with a b c d show ?thesis by (intro conjI)
qed

theorem payout_fails_when_pool_is_short_witness:
  "\<exists>s0 s1 s2 s3 s4 s5.
       constructor \<lparr>msg_sender = 1, block_timestamp = 0, address_this = 9\<rparr> 1 2 1 = Inr s0
     \<and> stake \<lparr>msg_sender = 1, block_timestamp = 1000, address_this = 9\<rparr> (500 * 10 ^ 18) (30 * days) s0 = Inr s1
     \<and> internal_updateRewards \<lparr>msg_sender = 1, block_timestamp = 1000 + 365 * days, address_this = 9\<rparr> 1 s1 = Inr s2
     \<and> rewards s2 1 = 5 * 10 ^ 18 \<and> rewardPool s2 = 0
     \<and> internal_claimRewards \<lparr>msg_sender = 1, block_timestamp = 1000 + 365 * days, address_this = 9\<rparr> s2
          = Inl (Revert ''Insufficient reward pool'')
     \<and> claimRewards \<lparr>msg_sender = 1, block_timestamp = 1000 + 365 * days, address_this = 9\<rparr> s1
          = Inl (Revert ''Insufficient reward pool'')
     \<and> unstake \<lparr>msg_sender = 1, block_timestamp = 1000 + 365 * days, address_this = 9\<rparr> (10 ^ 18) s1
          = Inl (Revert ''Insufficient reward pool'')
     \<and> commit s1 (claimRewards \<lparr>msg_sender = 1, block_timestamp = 1000 + 365 * days, address_this = 9\<rparr> s1) = s1
     \<and> distributeRewards \<lparr>msg_sender = 1, block_timestamp = 2000, address_this = 9\<rparr> (10 * 10 ^ 18) s1 = Inr s3
     \<and> internal_updateRewards \<lparr>msg_sender = 1, block_timestamp = 1000 + 365 * days, address_this = 9\<rparr> 1 s3 = Inr s4
     \<and> internal_claimRewards \<lparr>msg_sender = 1, block_timestamp = 1000 + 365 * days, address_this = 9\<rparr> s4 = Inr s5
     \<and> rewardPool s4 = 10 * 10 ^ 18 \<and> unat (rewardPool s5) = 5 * 10 ^ 18"
proof -
  let ?e = "\<lparr>msg_sender = 1, block_timestamp = 1000 + 365 * days, address_this = 9\<rparr>"
  obtain s0 where s0: "constructor \<lparr>msg_sender = 1, block_timestamp = 0, address_this = 9\<rparr> 1 2 1 = Inr s0"
    by (simp add: arith_defs token_defs Let_def)
  obtain s1 where s1: "stake \<lparr>msg_sender = 1, block_timestamp = 1000, address_this = 9\<rparr> (500 * 10 ^ 18) (30 * days) s0 = Inr s1"
    and st: "stakes s1 1 = \<lparr>amount = 500 * 10 ^ 18, timestamp = 1000, rewardDebt = 0, lockPeriod = 30 * days\<rparr>"
      "rewards s1 1 = 0" "rewardPool s1 = 0" "rewardRate s1 = 100"
    and o1: "roles s1 REWARDS_ROLE 1" "balances s1 1 = 100000000 * 10 ^ 18 - 500 * 10 ^ 18"
      "balances s1 9 = 500 * 10 ^ 18" "\<not> paused s1"
    using s0 by (auto simp add: arith_defs token_defs Let_def)
  obtain s2 where s2: "internal_updateRewards ?e 1 s1 = Inr s2"
    and r: "rewards s2 1 = 5 * 10 ^ 18" "rewardPool s2 = 0"
    using st by (simp add: arith_defs internal_updateRewards_def SECONDS_PER_YEAR_def Let_def)
  have lt: "rewardPool s2 < rewards s2 (msg_sender ?e)" using r by simp
  have s2': "internal_updateRewards ?e (msg_sender ?e) s1 = Inr s2" using s2 by simp
  have u: "checked_add (timestamp (stakes s1 (msg_sender ?e))) (lockPeriod (stakes s1 (msg_sender ?e)))
             = Inr (1000 + 30 * days)"
    using st by (simp add: arith_defs)
  have le: "10 ^ 18 \<le> amount (stakes s1 (msg_sender ?e))" "1000 + 30 * days \<le> block_timestamp ?e"
    using st by (simp_all add: days_def)
  note inst = payout_fails_when_pool_is_short [where s = s1 and e = ?e and amt = "10 ^ 18"]
  have a: "internal_claimRewards ?e s2 = Inl (Revert ''Insufficient reward pool'')"
    using payout_fails_when_pool_is_short [where s = s2 and e = ?e] lt by blast
  have b: "claimRewards ?e s1 = Inl (Revert ''Insufficient reward pool'') \<and> commit s1 (claimRewards ?e s1) = s1"
    using inst s2' lt by blast
  have c: "unstake ?e (10 ^ 18) s1 = Inl (Revert ''Insufficient reward pool'')"
    using inst s2' lt u le by blast
  obtain s3 where s3: "distributeRewards \<lparr>msg_sender = 1, block_timestamp = 2000, address_this = 9\<rparr> (10 * 10 ^ 18) s1 = Inr s3"
    and o3: "stakes s3 1 = \<lparr>amount = 500 * 10 ^ 18, timestamp = 1000, rewardDebt = 0, lockPeriod = 30 * days\<rparr>"
      "rewards s3 1 = 0" "rewardPool s3 = 10 * 10 ^ 18" "rewardRate s3 = 100"
      "balances s3 9 = 510 * 10 ^ 18" "\<not> paused s3"
    using st o1
    by (simp add: arith_defs distributeRewards_def erc20_transfer_def beforeTokenTransfer_def Let_def)
  obtain s4 where s4: "internal_updateRewards ?e 1 s3 = Inr s4"
    and o4: "rewards s4 1 = 5 * 10 ^ 18" "rewardPool s4 = 10 * 10 ^ 18"
      "balances s4 9 = 510 * 10 ^ 18" "\<not> paused s4"
    using o3 by (simp add: arith_defs internal_updateRewards_def SECONDS_PER_YEAR_def Let_def)
  obtain s5 where s5: "internal_claimRewards ?e s4 = Inr s5"
    using o4
    by (simp add: arith_defs internal_claimRewards_def erc20_transfer_def beforeTokenTransfer_def Let_def)
  have "unat (rewardPool s5) = unat (rewardPool s4) - unat (rewards s4 (msg_sender ?e))"
    using payout_fails_when_pool_is_short [where s = s4 and e = ?e] s5 by blast
  then have d: "unat (rewardPool s5) = 5 * 10 ^ 18" using o4 by simp
  show ?thesis using s0 s1 s2 r a b c s3 s4 s5 o4(2) d by blast
qed

section \<open>Reward settlement\<close>



















section \<open>Buying a listed asset\<close>

lemma buyNFT_success:
  assumes "buyNFT e t s = Inr (s', payments)"
  shows "isListed (valueData s t)" and "msg_value e = listPrice (valueData s t)"
    and "\<exists>fee sellerAmount. payments = [(owners s t, sellerAmount), (feeRecipient s, fee)]
          \<and> unat fee = unat (msg_value e) * unat (marketplaceFee s) div 10000
          \<and> unat sellerAmount = unat (msg_value e) - unat fee
          \<and> unat sellerAmount + unat fee = unat (msg_value e)"
    and "\<not> isListed (valueData s' t)" and "listPrice (valueData s' t) = 0"
    and "tokenListings s' t = 0" and "owners s' t = msg_sender e"
  using assms
  by (auto simp: buyNFT_def ownerOf_def erc721_transfer_def and_then_Inr require_Inr
      checked_mul_Inr checked_sub_Inr Let_def unat_div)

lemma buyNFT_not_listed:
  "\<not> isListed (valueData s t) \<Longrightarrow> buyNFT e t s = Inl (Revert ''NFT not listed'')"
  by (simp add: buyNFT_def require_def)

lemma buyNFT_wrong_payment:
  "isListed (valueData s t) \<Longrightarrow> msg_value e \<noteq> listPrice (valueData s t) \<Longrightarrow>
     buyNFT e t s = Inl (Revert ''Incorrect payment amount'')"
  by (simp add: buyNFT_def require_def)

lemma buyNFT_returns:
  assumes "isListed (valueData s t)" "msg_value e = listPrice (valueData s t)"
    and "owners s t \<noteq> 0" "msg_sender e \<noteq> 0"
    and "unat (msg_value e) * unat (marketplaceFee s) < 2 ^ 256" "marketplaceFee s \<le> 10000"
  shows "\<exists>s' payments. buyNFT e t s = Inr (s', payments)"
proof -
  let ?scaled = "msg_value e * marketplaceFee s"
  have m: "checked_mul (msg_value e) (marketplaceFee s) = Inr ?scaled"
    and u: "unat ?scaled = unat (msg_value e) * unat (marketplaceFee s)"
    using assms(5) by (simp_all add: checked_mul_def unat_word_ariths)
  have "unat (marketplaceFee s) \<le> 10000"
    using assms(6) by (simp add: word_le_nat_alt)
  then have "unat (msg_value e) * unat (marketplaceFee s) \<le> unat (msg_value e) * 10000"
    by (rule mult_le_mono2)
  then have "unat (msg_value e) * unat (marketplaceFee s) div 10000 \<le> unat (msg_value e) * 10000 div 10000"
    by (rule div_le_mono)
  then have "unat (?scaled div 10000) \<le> unat (msg_value e)"
    by (simp add: unat_div u)
  then have sub: "checked_sub (msg_value e) (?scaled div 10000) = Inr (msg_value e - ?scaled div 10000)"
    by (simp add: checked_sub_def word_le_nat_alt)
  show ?thesis
    using assms(1) assms(2) [symmetric] assms(3,4)
    by (simp add: buyNFT_def ownerOf_def erc721_transfer_def require_def m sub Let_def)
qed

text \<open>
  Claim C8: a successful buy of an asset listed at price P, paid with exactly P, pays
  the seller P - P * feeBps / 10000 and the fee recipient P * feeBps / 10000, so the two
  payments add up to P; in the same step the listing is cleared and the buyer becomes
  the owner. A buy whose payment differs from the list price, or of an asset that is
  not listed, fails and changes nothing.

  The seller is the owner of the asset at the time of the buy, as the contract reads
  it. The last part says that the buy does return when the asset is listed and exists,
  the payment is exact, and the fee rate is at most 10000 with a product that fits in
  256 bits.
\<close>

theorem buyNFT_exact_split:
  "(\<forall>s' payments. buyNFT e t s = Inr (s', payments) \<longrightarrow>
       isListed (valueData s t) \<and> msg_value e = listPrice (valueData s t)
       \<and> (\<exists>fee sellerAmount. payments = [(owners s t, sellerAmount), (feeRecipient s, fee)]
             \<and> unat fee = unat (msg_value e) * unat (marketplaceFee s) div 10000
             \<and> unat sellerAmount = unat (msg_value e) - unat fee
             \<and> unat sellerAmount + unat fee = unat (msg_value e))
       \<and> \<not> isListed (valueData s' t) \<and> listPrice (valueData s' t) = 0
       \<and> tokenListings s' t = 0 \<and> owners s' t = msg_sender e)
   \<and> (\<not> isListed (valueData s t) \<longrightarrow>
         buyNFT e t s = Inl (Revert ''NFT not listed'')
         \<and> commit s (and_then (buyNFT e t s) (\<lambda>r. Inr (fst r))) = s)
   \<and> (isListed (valueData s t) \<and> msg_value e \<noteq> listPrice (valueData s t) \<longrightarrow>
         buyNFT e t s = Inl (Revert ''Incorrect payment amount'')
         \<and> commit s (and_then (buyNFT e t s) (\<lambda>r. Inr (fst r))) = s)
   \<and> (isListed (valueData s t) \<and> msg_value e = listPrice (valueData s t)
         \<and> owners s t \<noteq> 0 \<and> msg_sender e \<noteq> 0
         \<and> unat (msg_value e) * unat (marketplaceFee s) < 2 ^ 256 \<and> marketplaceFee s \<le> 10000 \<longrightarrow>
         (\<exists>s' payments. buyNFT e t s = Inr (s', payments)))"
proof (intro conjI allI impI)
  fix s' payments
  assume b: "buyNFT e t s = Inr (s', payments)"
  show "isListed (valueData s t)" "msg_value e = listPrice (valueData s t)"
    "\<exists>fee sellerAmount. payments = [(owners s t, sellerAmount), (feeRecipient s, fee)]
          \<and> unat fee = unat (msg_value e) * unat (marketplaceFee s) div 10000
          \<and> unat sellerAmount = unat (msg_value e) - unat fee
          \<and> unat sellerAmount + unat fee = unat (msg_value e)"
    "\<not> isListed (valueData s' t)" "listPrice (valueData s' t) = 0"
    "tokenListings s' t = 0" "owners s' t = msg_sender e"
    using buyNFT_success [OF b] by blast+
next
  assume n: "\<not> isListed (valueData s t)"
  show "buyNFT e t s = Inl (Revert ''NFT not listed'')"
    "commit s (and_then (buyNFT e t s) (\<lambda>r. Inr (fst r))) = s"
    by (simp_all add: buyNFT_not_listed [OF n] commit_def)
next
  assume w: "isListed (valueData s t) \<and> msg_value e \<noteq> listPrice (valueData s t)"
  then have "buyNFT e t s = Inl (Revert ''Incorrect payment amount'')"
    by (simp add: buyNFT_wrong_payment)
  then show "buyNFT e t s = Inl (Revert ''Incorrect payment amount'')"
    "commit s (and_then (buyNFT e t s) (\<lambda>r. Inr (fst r))) = s"
    by (simp_all add: commit_def)
next
  assume "isListed (valueData s t) \<and> msg_value e = listPrice (valueData s t)
         \<and> owners s t \<noteq> 0 \<and> msg_sender e \<noteq> 0
         \<and> unat (msg_value e) * unat (marketplaceFee s) < 2 ^ 256 \<and> marketplaceFee s \<le> 10000"
  then show "\<exists>s' payments. buyNFT e t s = Inr (s', payments)"
    using buyNFT_returns [of s t e] by blast
qed

theorem buyNFT_exact_split_witness:
  "\<exists>s1 s2 s3. mintValueNFT \<lparr>msg_sender = 2, block_timestamp = 1000, address_this = 9, msg_value = 0\<rparr>
        5 ''lesson-1'' ''uri-1'' (10 ^ 18) (nft_constructor 1 2 3 4) = Inr (0, s1)
     \<and> listNFT \<lparr>msg_sender = 5, block_timestamp = 2000, address_this = 9, msg_value = 0\<rparr> 0 1000 s1 = Inr s2
     \<and> buyNFT \<lparr>msg_sender = 6, block_timestamp = 3000, address_this = 9, msg_value = 1000\<rparr> 0 s2
          = Inr (s3, [(5, 975), (4, 25)])
     \<and> owners s3 0 = 6 \<and> \<not> isListed (valueData s3 0) \<and> listPrice (valueData s3 0) = 0
     \<and> buyNFT \<lparr>msg_sender = 6, block_timestamp = 3000, address_this = 9, msg_value = 999\<rparr> 0 s2
          = Inl (Revert ''Incorrect payment amount'')
     \<and> buyNFT \<lparr>msg_sender = 6, block_timestamp = 3000, address_this = 9, msg_value = 1000\<rparr> 0 s1
          = Inl (Revert ''NFT not listed'')"
proof -
  let ?buy = "\<lparr>msg_sender = 6, block_timestamp = 3000, address_this = 9, msg_value = 1000\<rparr>"
  let ?low = "\<lparr>msg_sender = 6, block_timestamp = 3000, address_this = 9, msg_value = 999\<rparr>"
  obtain s1 where s1: "mintValueNFT \<lparr>msg_sender = 2, block_timestamp = 1000, address_this = 9, msg_value = 0\<rparr>
        5 ''lesson-1'' ''uri-1'' (10 ^ 18) (nft_constructor 1 2 3 4) = Inr (0, s1)"
    and o1: "owners s1 0 = 5" "\<not> isListed (valueData s1 0)" "marketplaceFee s1 = 250" "feeRecipient s1 = 4"
    by (simp add: arith_defs nft_defs Let_def)
  obtain s2 where s2: "listNFT \<lparr>msg_sender = 5, block_timestamp = 2000, address_this = 9, msg_value = 0\<rparr> 0 1000 s1 = Inr s2"
    and o2: "owners s2 0 = 5" "isListed (valueData s2 0)" "listPrice (valueData s2 0) = 1000"
      "marketplaceFee s2 = 250" "feeRecipient s2 = 4"
    using o1 by (simp add: arith_defs nft_defs Let_def)
  have h: "isListed (valueData s2 0) \<and> msg_value ?buy = listPrice (valueData s2 0)
         \<and> owners s2 0 \<noteq> 0 \<and> msg_sender ?buy \<noteq> 0
         \<and> unat (msg_value ?buy) * unat (marketplaceFee s2) < 2 ^ 256 \<and> marketplaceFee s2 \<le> 10000"
    using o2 by simp
  obtain s3 pays where s3: "buyNFT ?buy 0 s2 = Inr (s3, pays)"
    using buyNFT_exact_split [of ?buy 0 s2] h by blast
  obtain fee sellerAmount where pays: "pays = [(owners s2 0, sellerAmount), (feeRecipient s2, fee)]"
    and f: "unat fee = unat (msg_value ?buy) * unat (marketplaceFee s2) div 10000"
      "unat sellerAmount = unat (msg_value ?buy) - unat fee"
    and ok: "owners s3 0 = msg_sender ?buy" "\<not> isListed (valueData s3 0)" "listPrice (valueData s3 0) = 0"
    using buyNFT_exact_split [of ?buy 0 s2] s3 by blast
  have "unat fee = 25" using f(1) o2 by simp
  then have fee: "fee = 25" by (simp add: word_unat_eq_iff)
  have "unat sellerAmount = 975" using f(2) \<open>unat fee = 25\<close> by simp
  then have seller: "sellerAmount = 975" by (simp add: word_unat_eq_iff)
  have s3': "buyNFT ?buy 0 s2 = Inr (s3, [(5, 975), (4, 25)])"
    using s3 pays fee seller o2 by simp
  have low: "buyNFT ?low 0 s2 = Inl (Revert ''Incorrect payment amount'')"
    using buyNFT_exact_split [of ?low 0 s2] o2 by simp
  have unl: "buyNFT ?buy 0 s1 = Inl (Revert ''NFT not listed'')"
    using buyNFT_exact_split [of ?buy 0 s1] o1 by simp
  show ?thesis using s1 s2 s3' ok low unl by simp
qed

section \<open>The value calculation\<close>

lemma calculateValue_floor:
  "internal_calculateValue e t s = Inr v \<Longrightarrow> initialValue (valueData s t) div 10 \<le> v"
  by (auto simp: internal_calculateValue_def and_then_Inr Let_def split: if_splits)



lemma mintValueNFT_record:
  assumes "mintValueNFT e to cid uri initial s = Inr (t, s')"
  shows "valueData s' = (valueData s)(t :=
           \<lparr> contentId = cid, creator = to, initialValue = initial, currentValue = initial,
             impactScore = 5000, engagementScore = 5000, qualityScore = 7500,
             viewCount = 0, actionCount = 0, mintTimestamp = block_timestamp e,
             lastValueUpdate = block_timestamp e, isListed = False, listPrice = 0 \<rparr>)"
    and "exists_token t s'" and "BASE_VALUE div 10 \<le> initial"
  using assms
  by (auto simp: mintValueNFT_def erc721_safeMint_def setTokenURI_def exists_token_def
      and_then_Inr require_Inr Let_def)

lemma updateValue_record:
  assumes "updateValue e t i g q views actions s = Inr s'"
  shows "\<exists>v. initialValue (valueData s t) div 10 \<le> v \<and>
           valueData s' = (valueData s)(t := (valueData s t)\<lparr>impactScore := i, engagementScore := g,
             qualityScore := q, viewCount := views, actionCount := actions, currentValue := v,
             lastValueUpdate := block_timestamp e\<rparr>)"
proof -
  let ?d1 = "(valueData s t)\<lparr>impactScore := i, engagementScore := g, qualityScore := q,
               viewCount := views, actionCount := actions\<rparr>"
  let ?s1 = "s\<lparr>valueData := (valueData s)(t := ?d1)\<rparr>"
  from assms obtain v where c: "internal_calculateValue e t ?s1 = Inr v"
    and s': "s' = ?s1\<lparr>valueData := (valueData ?s1)(t :=
                ?d1\<lparr>currentValue := v, lastValueUpdate := block_timestamp e\<rparr>)\<rparr>"
    by (auto simp: updateValue_def and_then_Inr Let_def)
  have "initialValue (valueData s t) div 10 \<le> v"
    using calculateValue_floor [OF c] by simp
  moreover have "valueData s' = (valueData s)(t := (valueData s t)\<lparr>impactScore := i, engagementScore := g,
             qualityScore := q, viewCount := views, actionCount := actions, currentValue := v,
             lastValueUpdate := block_timestamp e\<rparr>)"
    by (simp add: s')
  ultimately show ?thesis by blast
qed

lemma mintValueNFT_floor:
  assumes "value_floor s" "mintValueNFT e to cid uri initial s = Inr (t, s')"
  shows "value_floor s'"
  using assms(1) mintValueNFT_record(1) [OF assms(2)]
  by (auto simp: value_floor_def word_div_10_le)

lemma updateValue_floor: "value_floor s \<Longrightarrow> updateValue e t i g q views actions s = Inr s' \<Longrightarrow> value_floor s'"
  by (auto simp: value_floor_def dest!: updateValue_record)

lemma nft_reachable_floor: "nft_reachable s \<Longrightarrow> value_floor s"
proof (induction rule: nft_reachable.induct)
  case (nft_deployed admin minter orc recipient)
  show ?case by (simp add: value_floor_def nft_constructor_def empty_ValueData_def Let_def)
next
  case (after_mintValueNFT s e to cid uri initial tokenId s')
  then show ?case by (simp add: mintValueNFT_floor)
next
  case (after_updateValue s e tokenId i g q views actions s')
  then show ?case by (simp add: updateValue_floor)
next
  case (after_listNFT s e tokenId price s')
  then show ?case by (auto simp: value_floor_def listNFT_def and_then_Inr)
next
  case (after_unlistNFT s e tokenId s')
  then show ?case by (auto simp: value_floor_def unlistNFT_def and_then_Inr)
next
  case (after_buyNFT s e tokenId s' payments)
  then show ?case
    by (auto simp: value_floor_def buyNFT_def erc721_transfer_def and_then_Inr Let_def)
next
  case (after_updateMarketplaceFee s e newFee s')
  then show ?case by (auto simp: value_floor_def updateMarketplaceFee_def and_then_Inr)
next
  case (after_updateFeeRecipient s e newRecipient s')
  then show ?case by (auto simp: value_floor_def updateFeeRecipient_def and_then_Inr)
next
  case (after_transfer s "from" to tokenId s')
  then show ?case by (auto simp: value_floor_def erc721_transfer_def and_then_Inr)
next
  case (after_burn s tokenId s')
  then show ?case
    by (auto simp: value_floor_def internal_burn_def erc721_burn_def empty_ValueData_def
        and_then_Inr Let_def split: if_splits)
next
  case (after_nft_access s rs)
  then show ?case by (simp add: value_floor_def)
qed

lemma decay_ratio_zero: "1 \<le> n \<Longrightarrow> (9950::nat) ^ n div 10000 ^ n = 0"
proof -
  assume "1 \<le> n"
  then have "(9950::nat) ^ n < 10000 ^ n"
    by (intro power_strict_mono) simp_all
  then show ?thesis by simp
qed

lemma decay_multiplier_zero:
  assumes "checked_exp VALUE_DECAY_RATE p = Inr num" "checked_exp 10000 p = Inr den"
    and "checked_div num den = Inr dm" and "1 \<le> unat p"
  shows "dm = 0"
proof -
  have "unat dm = unat num div unat den"
    by (rule checked_div_unat [OF assms(3)])
  also have "\<dots> = 9950 ^ unat p div 10000 ^ unat p"
    by (simp add: checked_exp_unat [OF assms(1)] checked_exp_unat [OF assms(2)] VALUE_DECAY_RATE_def)
  finally have "unat dm = 9950 ^ unat p div 10000 ^ unat p" .
  then have "unat dm = 0" using assms(4) by (simp add: decay_ratio_zero)
  then show ?thesis by (simp add: unat_eq_zero)
qed

lemma decay_periods:
  assumes "checked_sub now upd = Inr tsu"
  shows "unat (tsu div days) = (unat now - unat upd) div 86400"
  by (simp add: unat_div days_def checked_sub_unat [OF assms])

lemma calculateValue_after_a_day:
  assumes "internal_calculateValue e t s = Inr v"
    and "unat (lastValueUpdate (valueData s t)) + 86400 \<le> unat (block_timestamp e)"
  shows "v = initialValue (valueData s t) div 10"
proof -
  let ?d = "valueData s t"
  from assms(1) obtain tsu num den dm v2 v3 where
    c: "checked_sub (block_timestamp e) (lastValueUpdate ?d) = Inr tsu"
      "checked_exp VALUE_DECAY_RATE (tsu div days) = Inr num"
      "checked_exp 10000 (tsu div days) = Inr den"
      "checked_div num den = Inr dm"
      "checked_mul v2 dm = Inr v3"
    and v: "v = (if v3 div (10000 * 10000 * 10000) < initialValue ?d div 10
                then initialValue ?d div 10 else v3 div (10000 * 10000 * 10000))"
    by (auto simp: internal_calculateValue_def and_then_Inr Let_def)
  have "86400 \<le> unat (block_timestamp e) - unat (lastValueUpdate ?d)"
    using assms(2) by simp
  then have "1 \<le> (unat (block_timestamp e) - unat (lastValueUpdate ?d)) div 86400"
    by (simp add: Suc_le_eq div_greater_zero_iff)
  then have "1 \<le> unat (tsu div days)"
    by (simp only: decay_periods [OF c(1)])
  then have "dm = 0" by (rule decay_multiplier_zero [OF c(2) c(3) c(4)])
  then have "v3 = 0" using c(5) by (simp add: checked_mul_Inr)
  then show ?thesis using v by (auto simp: word_greater_zero_iff)
qed

lemma pow_fits:
  assumes "n \<le> 19"
  shows "(9950::nat) ^ n < 2 ^ 256" and "(10000::nat) ^ n < 2 ^ 256"
proof -
  have "(10000::nat) ^ n \<le> 10000 ^ 19"
    using assms by (intro power_increasing) simp_all
  moreover have "(10000::nat) ^ 19 < 2 ^ 256" by simp
  ultimately show b: "(10000::nat) ^ n < 2 ^ 256" by linarith
  have "(9950::nat) ^ n \<le> 10000 ^ n" by (intro power_mono) simp_all
  with b show "(9950::nat) ^ n < 2 ^ 256" by linarith
qed

lemma pow_overflows:
  assumes "20 \<le> n"
  shows "\<not> (9950::nat) ^ n < 2 ^ 256"
proof -
  have "(9950::nat) ^ 20 \<le> 9950 ^ n"
    using assms by (intro power_increasing) simp_all
  moreover have "\<not> (9950::nat) ^ 20 < 2 ^ 256" by simp
  ultimately show ?thesis by linarith
qed

lemma calculateValue_overflows:
  assumes "20 * 86400 \<le> unat (block_timestamp e) - unat (lastValueUpdate (valueData s t))"
  shows "internal_calculateValue e t s = Inl ArithmeticPanic"
proof -
  let ?tsu = "block_timestamp e - lastValueUpdate (valueData s t)"
  have le: "lastValueUpdate (valueData s t) \<le> block_timestamp e"
    using assms by (simp add: word_le_nat_alt)
  then have "unat (?tsu div days) = (unat (block_timestamp e) - unat (lastValueUpdate (valueData s t))) div 86400"
    by (simp add: unat_div unat_sub days_def)
  moreover have "20 \<le> (unat (block_timestamp e) - unat (lastValueUpdate (valueData s t))) div 86400"
    using assms by (simp add: less_eq_div_iff_mult_less_eq)
  ultimately have "20 \<le> unat (?tsu div days)" by simp
  then have "\<not> (9950::nat) ^ unat (?tsu div days) < 2 ^ 256" by (rule pow_overflows)
  then have x: "checked_exp VALUE_DECAY_RATE (?tsu div days) = Inl ArithmeticPanic"
    by (simp add: checked_exp_def VALUE_DECAY_RATE_def)
  show ?thesis
    using le
    by (simp add: internal_calculateValue_def checked_add_def checked_mul_def checked_sub_def x Let_def)
qed

lemma fresh_value:
  assumes mint: "mintValueNFT e to cid uri initial s = Inr (t, s')"
    and now: "block_timestamp e' = block_timestamp e"
    and fits: "unat initial * 56250000 < 2 ^ 256"
  shows "getCurrentValue e' t s' = Inr (initial div 10)"
proof -
  note r = mintValueNFT_record [OF mint]
  have d: "valueData s' t =
      \<lparr> contentId = cid, creator = to, initialValue = initial, currentValue = initial,
        impactScore = 5000, engagementScore = 5000, qualityScore = 7500,
        viewCount = 0, actionCount = 0, mintTimestamp = block_timestamp e,
        lastValueUpdate = block_timestamp e, isListed = False, listPrice = 0 \<rparr>"
    by (simp add: r(1))
  have big: "10 ^ 17 \<le> unat initial"
    using r(3) by (simp add: BASE_VALUE_def word_le_nat_alt)
  have f1: "unat initial * unat (5625 :: uint256) < 2 ^ 256" using fits by simp
  have u1: "unat (initial * 5625) = unat initial * 5625"
    using unat_mul_ok [OF f1] by simp
  have f2: "unat (initial * 5625) * unat (10000 :: uint256) < 2 ^ 256"
    using fits by (simp add: u1)
  have u2: "unat (initial * 5625 * 10000) = unat initial * 56250000"
    using unat_mul_ok [OF f2] by (simp add: u1)
  have f3: "unat (initial * 5625 * 10000) * unat (1 :: uint256) < 2 ^ 256"
    unfolding u2 using fits by simp
  have m1: "checked_mul initial 5625 = Inr (initial * 5625)" by (rule checked_mul_ok [OF f1])
  have m2: "checked_mul (initial * 5625) 10000 = Inr (initial * 5625 * 10000)"
    by (rule checked_mul_ok [OF f2])
  have m3: "checked_mul (56250000 * initial) 1 = Inr (56250000 * initial)"
    using checked_mul_ok [OF f3] by simp
  have "unat initial * 56250000 div 1000000000000 < unat initial div 10"
    using big by simp
  then have lt: "initial * 5625 * 10000 div 1000000000000 < initial div 10"
    unfolding word_less_nat_alt unat_div u2 by simp
  have comp: "checked_mul (5000 :: uint256) 40 = Inr 200000"
    "checked_mul (5000 :: uint256) 35 = Inr 175000"
    "checked_add (200000 :: uint256) 175000 = Inr 375000"
    "checked_mul (7500 :: uint256) 25 = Inr 187500"
    "checked_add (375000 :: uint256) 187500 = Inr 562500"
    by (simp_all add: checked_mul_def checked_add_def)
  have dec: "checked_sub (block_timestamp e) (block_timestamp e) = Inr 0"
    "checked_exp VALUE_DECAY_RATE 0 = Inr 1" "checked_exp 10000 0 = Inr 1"
    "checked_div (1 :: uint256) 1 = Inr 1"
    by (simp_all add: checked_sub_def checked_exp_def checked_div_def)
  show ?thesis
    using r(2) lt
    by (simp add: getCurrentValue_def internal_calculateValue_def require_def d now comp dec
        m1 m2 m3 Let_def)
qed

lemma action_multiplier:
  assumes "unat ac * 100 + 10000 < 2 ^ 256"
  shows "(if 0 < ac
          then and_then (checked_mul ac 100) (\<lambda>bonus.
               and_then (checked_add 10000 bonus) (\<lambda>m.
               Inr (if MAX_MULTIPLIER < m then MAX_MULTIPLIER else m)))
          else Inr 10000) = Inr (10000 :: uint256)"
proof (cases "0 < ac")
  case False
  then show ?thesis by simp
next
  case True
  then have pos: "0 < unat ac" by (simp add: word_less_nat_alt)
  have f1: "unat ac * unat (100 :: uint256) < 2 ^ 256" using assms by simp
  have u1: "unat (ac * 100) = unat ac * 100" using unat_mul_ok [OF f1] by simp
  have f2: "unat (10000 :: uint256) + unat (ac * 100) < 2 ^ 256"
    unfolding u1 using assms by simp
  have u2: "unat (10000 + ac * 100) = 10000 + unat ac * 100"
    using unat_add_ok [OF f2] by (simp add: u1)
  have "unat (10000 :: uint256) < unat (10000 + ac * 100)"
    unfolding u2 using pos by simp
  then have gt: "(10000 :: uint256) < 10000 + ac * 100"
    by (simp only: word_less_nat_alt)
  show ?thesis
    by (simp only: True if_True checked_mul_ok [OF f1] checked_add_ok [OF f2] and_then.simps gt
        MAX_MULTIPLIER_def)
qed

lemma calculateValue_returns:
  fixes e :: call_env and s :: nft_state and t :: uint256
  defines "d \<equiv> valueData s t"
  assumes le: "lastValueUpdate d \<le> block_timestamp e"
    and p: "(unat (block_timestamp e) - unat (lastValueUpdate d)) div 86400 \<le> 19"
    and w: "unat (impactScore d) * 40 + unat (engagementScore d) * 35 + unat (qualityScore d) * 25 < 2 ^ 256"
    and a: "unat (actionCount d) * 100 + 10000 < 2 ^ 256"
    and v: "unat (initialValue d)
              * spec_composite (unat (impactScore d)) (unat (engagementScore d)) (unat (qualityScore d))
              * 10000 < 2 ^ 256"
  shows "\<exists>r. internal_calculateValue e t s = Inr r"
proof -
  let ?i = "impactScore (valueData s t)" and ?g = "engagementScore (valueData s t)"
  let ?q = "qualityScore (valueData s t)" and ?iv = "initialValue (valueData s t)"
  let ?ac = "actionCount (valueData s t)"
  let ?tsu = "block_timestamp e - lastValueUpdate (valueData s t)"
  let ?pp = "?tsu div days"
  let ?comp = "(?i * 40 + ?g * 35 + ?q * 25) div 100"
  let ?dm = "VALUE_DECAY_RATE ^ unat ?pp div 10000 ^ unat ?pp"
  note w' = w [unfolded d_def] and v' = v [unfolded d_def] and a' = a [unfolded d_def]
  have f1: "unat ?i * unat (40 :: uint256) < 2 ^ 256" using w' by simp
  have u1: "unat (?i * 40) = unat ?i * 40" using unat_mul_ok [OF f1] by simp
  have f2: "unat ?g * unat (35 :: uint256) < 2 ^ 256" using w' by simp
  have u2: "unat (?g * 35) = unat ?g * 35" using unat_mul_ok [OF f2] by simp
  have f3: "unat (?i * 40) + unat (?g * 35) < 2 ^ 256" unfolding u1 u2 using w' by simp
  have u3: "unat (?i * 40 + ?g * 35) = unat ?i * 40 + unat ?g * 35"
    using unat_add_ok [OF f3] by (simp only: u1 u2)
  have f4: "unat ?q * unat (25 :: uint256) < 2 ^ 256" using w' by simp
  have u4: "unat (?q * 25) = unat ?q * 25" using unat_mul_ok [OF f4] by simp
  have f5: "unat (?i * 40 + ?g * 35) + unat (?q * 25) < 2 ^ 256" unfolding u3 u4 using w' by simp
  have u5: "unat (?i * 40 + ?g * 35 + ?q * 25) = unat ?i * 40 + unat ?g * 35 + unat ?q * 25"
    using unat_add_ok [OF f5] by (simp only: u3 u4)
  have uc: "unat ?comp = spec_composite (unat ?i) (unat ?g) (unat ?q)"
    unfolding unat_div u5 spec_composite_def by simp
  have c6: "checked_sub (block_timestamp e) (lastValueUpdate (valueData s t)) = Inr ?tsu"
    using le by (simp add: checked_sub_def d_def)
  have pp: "unat ?pp \<le> 19"
    using p decay_periods [OF c6] by (simp add: d_def)
  have c7: "checked_exp VALUE_DECAY_RATE ?pp = Inr (VALUE_DECAY_RATE ^ unat ?pp)"
    using pow_fits(1) [OF pp] by (simp add: checked_exp_def VALUE_DECAY_RATE_def)
  have c8: "checked_exp 10000 ?pp = Inr (10000 ^ unat ?pp)"
    using pow_fits(2) [OF pp] by (simp add: checked_exp_def)
  have "unat ((10000 :: uint256) ^ unat ?pp) = 10000 ^ unat ?pp"
    using checked_exp_unat [OF c8] by simp
  then have "unat ((10000 :: uint256) ^ unat ?pp) \<noteq> 0" by simp
  then have nz: "(10000 :: uint256) ^ unat ?pp \<noteq> 0" by (simp only: unat_eq_zero not_False_eq_True)
  have c9: "checked_div (VALUE_DECAY_RATE ^ unat ?pp) (10000 ^ unat ?pp) = Inr ?dm"
    using nz by (simp only: checked_div_def if_False)
  have "unat ?dm = 9950 ^ unat ?pp div 10000 ^ unat ?pp"
    using checked_div_unat [OF c9] checked_exp_unat [OF c7] checked_exp_unat [OF c8]
    by (simp add: VALUE_DECAY_RATE_def)
  moreover have "(9950::nat) ^ unat ?pp div 10000 ^ unat ?pp \<le> 10000 ^ unat ?pp div 10000 ^ unat ?pp"
    by (intro div_le_mono power_mono) simp_all
  ultimately have dm: "unat ?dm \<le> 1" by simp
  have f11: "unat ?iv * unat ?comp < 2 ^ 256"
  proof -
    have "unat ?iv * unat ?comp \<le> unat ?iv * unat ?comp * 10000" by simp
    also have "\<dots> < 2 ^ 256" unfolding uc by (rule v')
    finally show ?thesis .
  qed
  have u11: "unat (?iv * ?comp) = unat ?iv * unat ?comp" by (rule unat_mul_ok [OF f11])
  have f12: "unat (?iv * ?comp) * unat (10000 :: uint256) < 2 ^ 256"
    unfolding u11 uc using v' by simp
  have u12: "unat (?iv * ?comp * 10000) = unat ?iv * unat ?comp * 10000"
    using unat_mul_ok [OF f12] by (simp add: u11)
  have f13: "unat (?iv * ?comp * 10000) * unat ?dm < 2 ^ 256"
  proof -
    have "unat (?iv * ?comp * 10000) * unat ?dm \<le> unat (?iv * ?comp * 10000) * 1"
      using dm by (rule mult_le_mono2)
    also have "\<dots> < 2 ^ 256" unfolding u12 uc using v' by simp
    finally show ?thesis .
  qed
  show ?thesis
    unfolding internal_calculateValue_def Let_def
    by (simp only: checked_mul_ok [OF f1] checked_mul_ok [OF f2] checked_add_ok [OF f3]
        checked_mul_ok [OF f4] checked_add_ok [OF f5] c6 c7 c8 c9 action_multiplier [OF a']
        checked_mul_ok [OF f11] checked_mul_ok [OF f12] checked_mul_ok [OF f13] and_then.simps)
      blast
qed

section \<open>The value of a freshly minted asset\<close>

text \<open>
  The minter mints an asset of initial value 10^18 on a fresh contract and the value is
  queried in the same second: the answer is 10^17, a tenth of the initial value.
\<close>

theorem minted_asset_queried_at_once:
  "(case mintValueNFT \<lparr>msg_sender = 2, block_timestamp = 1000, address_this = 9, msg_value = 0\<rparr>
           5 ''lesson-1'' ''uri-1'' (10 ^ 18) (nft_constructor 1 2 3 4) of
      Inl err \<Rightarrow> False
    | Inr (t, s) \<Rightarrow> initialValue (valueData s t) = 10 ^ 18 \<and>
        getCurrentValue \<lparr>msg_sender = 7, block_timestamp = 1000, address_this = 9, msg_value = 0\<rparr> t s
          = Inr (10 ^ 17))"
  by (simp add: arith_defs nft_defs Let_def)

text \<open>
  Claim C1, as the code has it: for an asset freshly minted by \<^verbatim>\<open>mintValueNFT\<close>, with
  the default scores and no actions, \<^verbatim>\<open>getCurrentValue\<close> in the same instant returns a
  value that is at least a tenth of the initial value and strictly below the initial
  value, while the stored \<open>currentValue\<close> field is the initial value. The default
  scores weigh to 5625 of 10000, so the weighted value cannot reach the initial value.
  The query returns when the initial value times 5625 * 10000 * 10000, the default
  score with two further factors of at most 10000, fits in 256 bits.
\<close>

theorem fresh_asset_value:
  assumes "mintValueNFT e to cid uri initial s = Inr (t, s')"
    and "block_timestamp e' = block_timestamp e"
    and "unat initial * 562500000000 < 2 ^ 256"
  shows "(\<exists>v. getCurrentValue e' t s' = Inr v \<and> initial div 10 \<le> v \<and> v < initial)
    \<and> currentValue (valueData s' t) = initial"
proof -
  note r = mintValueNFT_record [OF assms(1)]
  have "10 ^ 17 \<le> unat initial"
    using r(3) by (simp add: BASE_VALUE_def word_le_nat_alt)
  then have "unat initial div 10 < unat initial" by simp
  then have lt: "initial div 10 < initial"
    by (simp add: word_less_nat_alt unat_div)
  have fits: "unat initial * 56250000 < 2 ^ 256" using assms(3) by simp
  have "getCurrentValue e' t s' = Inr (initial div 10)"
    using assms(1,2) fits by (rule fresh_value)
  then have "\<exists>v. getCurrentValue e' t s' = Inr v \<and> initial div 10 \<le> v \<and> v < initial"
    using lt by simp
  moreover have "currentValue (valueData s' t) = initial" by (simp add: r(1))
  ultimately show ?thesis by simp
qed

theorem fresh_asset_value_witness:
  "\<exists>s1 v. mintValueNFT \<lparr>msg_sender = 2, block_timestamp = 1000, address_this = 9, msg_value = 0\<rparr>
           5 ''lesson-1'' ''uri-1'' (10 ^ 18) (nft_constructor 1 2 3 4) = Inr (0, s1)
     \<and> getCurrentValue \<lparr>msg_sender = 7, block_timestamp = 1000, address_this = 9, msg_value = 0\<rparr> 0 s1
          = Inr v
     \<and> (10 ^ 18 :: uint256) div 10 \<le> v \<and> v < 10 ^ 18
     \<and> currentValue (valueData s1 0) = 10 ^ 18"
proof -
  let ?e = "\<lparr>msg_sender = 2, block_timestamp = 1000, address_this = 9, msg_value = 0\<rparr>"
  let ?q = "\<lparr>msg_sender = 7, block_timestamp = 1000, address_this = 9, msg_value = 0\<rparr>"
  obtain s1 where s1: "mintValueNFT ?e 5 ''lesson-1'' ''uri-1'' (10 ^ 18) (nft_constructor 1 2 3 4) = Inr (0, s1)"
    by (simp add: arith_defs nft_defs Let_def)
  have now: "block_timestamp ?q = block_timestamp ?e" by simp
  have fits: "unat (10 ^ 18 :: uint256) * 562500000000 < 2 ^ 256" by simp
  from fresh_asset_value [OF s1 now fits] obtain v where
    "getCurrentValue ?q 0 s1 = Inr v" "(10 ^ 18 :: uint256) div 10 \<le> v" "v < 10 ^ 18"
    "currentValue (valueData s1 0) = 10 ^ 18"
    by blast
  with s1 show ?thesis by blast
qed

section \<open>The value floor\<close>

text \<open>
  Claim C5: in every reachable state every value record has a current value of at
  least a tenth of its initial value (integer division); this holds at mint, every
  metric update preserves it, and \<^verbatim>\<open>getCurrentValue\<close> never returns less.
\<close>

theorem value_floor_invariant:
  assumes "nft_reachable s"
  shows "initialValue (valueData s t) div 10 \<le> currentValue (valueData s t)
    \<and> (\<forall>e to cid uri initial t' s'. mintValueNFT e to cid uri initial s = Inr (t', s') \<longrightarrow>
          value_floor s' \<and> currentValue (valueData s' t') = initialValue (valueData s' t'))
    \<and> (\<forall>e t' i g q views actions s'. updateValue e t' i g q views actions s = Inr s' \<longrightarrow>
          value_floor s')
    \<and> (\<forall>e v. getCurrentValue e t s = Inr v \<longrightarrow> initialValue (valueData s t) div 10 \<le> v)"
proof -
  have f: "value_floor s" using assms by (rule nft_reachable_floor)
  have a: "initialValue (valueData s t) div 10 \<le> currentValue (valueData s t)"
    using f by (simp add: value_floor_def)
  have b: "\<forall>e to cid uri initial t' s'. mintValueNFT e to cid uri initial s = Inr (t', s') \<longrightarrow>
          value_floor s' \<and> currentValue (valueData s' t') = initialValue (valueData s' t')"
    using mintValueNFT_floor [OF f] by (auto dest: mintValueNFT_record(1))
  have c: "\<forall>e t' i g q views actions s'. updateValue e t' i g q views actions s = Inr s' \<longrightarrow>
          value_floor s'"
    using updateValue_floor [OF f] by blast
  have d: "\<forall>e v. getCurrentValue e t s = Inr v \<longrightarrow> initialValue (valueData s t) div 10 \<le> v"
    by (auto simp: getCurrentValue_def and_then_Inr dest: calculateValue_floor)
  from a b c d show ?thesis by (intro conjI)
qed

theorem value_floor_invariant_witness:
  "\<exists>s1 s2. mintValueNFT \<lparr>msg_sender = 2, block_timestamp = 1000, address_this = 9, msg_value = 0\<rparr>
           5 ''lesson-1'' ''uri-1'' (10 ^ 18) (nft_constructor 1 2 3 4) = Inr (0, s1)
     \<and> updateValue \<lparr>msg_sender = 3, block_timestamp = 2000, address_this = 9, msg_value = 0\<rparr>
           0 10000 10000 10000 70 5 s1 = Inr s2
     \<and> nft_reachable s2 \<and> value_floor s1 \<and> value_floor s2
     \<and> initialValue (valueData s2 0) = 10 ^ 18
     \<and> currentValue (valueData s2 0) = 10 ^ 17
     \<and> (10 ^ 18 :: uint256) div 10 \<le> currentValue (valueData s2 0)
     \<and> getCurrentValue \<lparr>msg_sender = 7, block_timestamp = 3000, address_this = 9, msg_value = 0\<rparr> 0 s2
           = Inr (10 ^ 17)
     \<and> (10 ^ 18 :: uint256) div 10 \<le> 10 ^ 17"
proof -
  let ?e = "\<lparr>msg_sender = 2, block_timestamp = 1000, address_this = 9, msg_value = 0\<rparr>"
  let ?u = "\<lparr>msg_sender = 3, block_timestamp = 2000, address_this = 9, msg_value = 0\<rparr>"
  let ?q = "\<lparr>msg_sender = 7, block_timestamp = 3000, address_this = 9, msg_value = 0\<rparr>"
  obtain s1 where s1: "mintValueNFT ?e 5 ''lesson-1'' ''uri-1'' (10 ^ 18) (nft_constructor 1 2 3 4) = Inr (0, s1)"
    and o1: "nft_roles s1 ORACLE_ROLE 3" "owners s1 0 = 5"
       "valueData s1 0 = \<lparr> contentId = ''lesson-1'', creator = 5, initialValue = 10 ^ 18,
          currentValue = 10 ^ 18, impactScore = 5000, engagementScore = 5000, qualityScore = 7500,
          viewCount = 0, actionCount = 0, mintTimestamp = 1000, lastValueUpdate = 1000,
          isListed = False, listPrice = 0 \<rparr>"
    by (simp add: arith_defs nft_defs Let_def)
  obtain s2 where s2: "updateValue ?u 0 10000 10000 10000 70 5 s1 = Inr s2"
    and o2: "initialValue (valueData s2 0) = 10 ^ 18" "currentValue (valueData s2 0) = 10 ^ 17"
    and d2: "owners s2 0 = 5"
       "valueData s2 0 = \<lparr> contentId = ''lesson-1'', creator = 5, initialValue = 10 ^ 18,
          currentValue = 10 ^ 17, impactScore = 10000, engagementScore = 10000, qualityScore = 10000,
          viewCount = 70, actionCount = 5, mintTimestamp = 1000, lastValueUpdate = 2000,
          isListed = False, listPrice = 0 \<rparr>"
    using o1 by (simp add: arith_defs nft_defs Let_def)
  have q: "getCurrentValue ?q 0 s2 = Inr (10 ^ 17)"
    using d2 by (simp add: arith_defs nft_defs Let_def)
  have r0: "nft_reachable (nft_constructor 1 2 3 4)" by (rule nft_reachable.nft_deployed)
  have r1: "nft_reachable s1" using r0 s1 by (rule nft_reachable.after_mintValueNFT)
  have r2: "nft_reachable s2" using r1 s2 by (rule nft_reachable.after_updateValue)
  have f1: "value_floor s1" using value_floor_invariant [OF r0] s1 by blast
  have f2: "value_floor s2" using value_floor_invariant [OF r1] s2 by blast
  have "initialValue (valueData s2 0) div 10 \<le> currentValue (valueData s2 0)"
    using value_floor_invariant [OF r2] by blast
  then have a: "(10 ^ 18 :: uint256) div 10 \<le> currentValue (valueData s2 0)"
    by (simp only: o2(1))
  have "initialValue (valueData s2 0) div 10 \<le> 10 ^ 17"
    using value_floor_invariant [OF r2, of 0] q by blast
  then have b: "(10 ^ 18 :: uint256) div 10 \<le> 10 ^ 17" by (simp only: o2(1))
  show ?thesis using s1 s2 r2 f1 f2 o2 a q b by blast
qed

section \<open>The value after a day\<close>

text \<open>
  Claim C9: for every minted asset whose last value update lies at least one full day
  in the past, \<^verbatim>\<open>getCurrentValue\<close> returns exactly a tenth of the initial value, whatever
  the scores and the action count.

  The contract raises 9950 and 10000 to the number of elapsed days in checked 256-bit
  arithmetic. An asset minted at time 1000 still answers with the floor 19 days later.
  After 20 days the power 9950^20 does not fit in 256 bits: the query reverts, and so
  does every \<^verbatim>\<open>updateValue\<close> of that record, which could alone move the time of the
  last update.
\<close>

theorem getCurrentValue_reverts_after_twenty_days:
  "(case mintValueNFT \<lparr>msg_sender = 2, block_timestamp = 1000, address_this = 9, msg_value = 0\<rparr>
           5 ''lesson-1'' ''uri-1'' (10 ^ 18) (nft_constructor 1 2 3 4) of
      Inl err \<Rightarrow> False
    | Inr (t, s) \<Rightarrow>
        getCurrentValue \<lparr>msg_sender = 7, block_timestamp = 1000 + 19 * days, address_this = 9, msg_value = 0\<rparr> t s
          = Inr (10 ^ 17) \<and>
        getCurrentValue \<lparr>msg_sender = 7, block_timestamp = 1000 + 20 * days, address_this = 9, msg_value = 0\<rparr> t s
          = Inl ArithmeticPanic \<and>
        updateValue \<lparr>msg_sender = 3, block_timestamp = 1000 + 20 * days, address_this = 9, msg_value = 0\<rparr>
          t 6000 6000 8000 10 1 s = Inl ArithmeticPanic)"
  by (simp add: arith_defs nft_defs Let_def)

text \<open>
  What the query does before the overflow: after at least one full day every value it
  returns is a tenth of the initial value, and it returns for 1 to 19 elapsed days when
  the weighted score, the action bonus and the product of initial value, weighted score
  and 10000 fit in 256 bits.
\<close>

lemma value_within_nineteen_days:
  "(\<forall>v. getCurrentValue e t s = Inr v
        \<and> unat (lastValueUpdate (valueData s t)) + 86400 \<le> unat (block_timestamp e) \<longrightarrow>
      v = initialValue (valueData s t) div 10)
   \<and> (exists_token t s
        \<and> unat (lastValueUpdate (valueData s t)) + 86400 \<le> unat (block_timestamp e)
        \<and> (unat (block_timestamp e) - unat (lastValueUpdate (valueData s t))) div 86400 \<le> 19
        \<and> unat (impactScore (valueData s t)) * 40 + unat (engagementScore (valueData s t)) * 35
            + unat (qualityScore (valueData s t)) * 25 < 2 ^ 256
        \<and> unat (actionCount (valueData s t)) * 100 + 10000 < 2 ^ 256
        \<and> unat (initialValue (valueData s t))
            * spec_composite (unat (impactScore (valueData s t)))
                (unat (engagementScore (valueData s t))) (unat (qualityScore (valueData s t)))
            * 10000 < 2 ^ 256 \<longrightarrow>
      getCurrentValue e t s = Inr (initialValue (valueData s t) div 10))"
proof (intro conjI allI impI)
  fix v
  assume "getCurrentValue e t s = Inr v
        \<and> unat (lastValueUpdate (valueData s t)) + 86400 \<le> unat (block_timestamp e)"
  then show "v = initialValue (valueData s t) div 10"
    by (auto simp: getCurrentValue_def and_then_Inr dest: calculateValue_after_a_day)
next
  assume h: "exists_token t s
        \<and> unat (lastValueUpdate (valueData s t)) + 86400 \<le> unat (block_timestamp e)
        \<and> (unat (block_timestamp e) - unat (lastValueUpdate (valueData s t))) div 86400 \<le> 19
        \<and> unat (impactScore (valueData s t)) * 40 + unat (engagementScore (valueData s t)) * 35
            + unat (qualityScore (valueData s t)) * 25 < 2 ^ 256
        \<and> unat (actionCount (valueData s t)) * 100 + 10000 < 2 ^ 256
        \<and> unat (initialValue (valueData s t))
            * spec_composite (unat (impactScore (valueData s t)))
                (unat (engagementScore (valueData s t))) (unat (qualityScore (valueData s t)))
            * 10000 < 2 ^ 256"
  then have le: "lastValueUpdate (valueData s t) \<le> block_timestamp e"
    by (simp add: word_le_nat_alt)
  from h obtain r where r: "internal_calculateValue e t s = Inr r"
    using calculateValue_returns [OF le, of ] by blast
  have "r = initialValue (valueData s t) div 10"
    using calculateValue_after_a_day [OF r] h by blast
  then show "getCurrentValue e t s = Inr (initialValue (valueData s t) div 10)"
    using h r by (simp add: getCurrentValue_def require_def)
qed

lemma value_within_nineteen_days_example:
  "\<exists>s1. mintValueNFT \<lparr>msg_sender = 2, block_timestamp = 1000, address_this = 9, msg_value = 0\<rparr>
           5 ''lesson-1'' ''uri-1'' (10 ^ 18) (nft_constructor 1 2 3 4) = Inr (0, s1)
     \<and> getCurrentValue \<lparr>msg_sender = 7, block_timestamp = 1000 + 5 * days, address_this = 9, msg_value = 0\<rparr> 0 s1
          = Inr (10 ^ 17)
     \<and> getCurrentValue \<lparr>msg_sender = 7, block_timestamp = 1000 + 19 * days, address_this = 9, msg_value = 0\<rparr> 0 s1
          = Inr (10 ^ 17)"
proof -
  let ?e = "\<lparr>msg_sender = 2, block_timestamp = 1000, address_this = 9, msg_value = 0\<rparr>"
  let ?q = "\<lparr>msg_sender = 7, block_timestamp = 1000 + 5 * days, address_this = 9, msg_value = 0\<rparr>"
  let ?l = "\<lparr>msg_sender = 7, block_timestamp = 1000 + 19 * days, address_this = 9, msg_value = 0\<rparr>"
  obtain s1 where s1: "mintValueNFT ?e 5 ''lesson-1'' ''uri-1'' (10 ^ 18) (nft_constructor 1 2 3 4) = Inr (0, s1)"
    and o1: "exists_token 0 s1"
       "valueData s1 0 = \<lparr> contentId = ''lesson-1'', creator = 5, initialValue = 10 ^ 18,
          currentValue = 10 ^ 18, impactScore = 5000, engagementScore = 5000, qualityScore = 7500,
          viewCount = 0, actionCount = 0, mintTimestamp = 1000, lastValueUpdate = 1000,
          isListed = False, listPrice = 0 \<rparr>"
    by (simp add: arith_defs nft_defs Let_def)
  let ?d = "valueData s1 0"
  have h1: "unat (lastValueUpdate ?d) + 86400 \<le> unat (block_timestamp ?q)"
    by (simp add: o1(2) days_def)
  have h2: "(unat (block_timestamp ?q) - unat (lastValueUpdate ?d)) div 86400 \<le> 19"
    by (simp add: o1(2) days_def)
  have h3: "unat (impactScore ?d) * 40 + unat (engagementScore ?d) * 35
              + unat (qualityScore ?d) * 25 < 2 ^ 256"
    by (simp add: o1(2))
  have h4: "unat (actionCount ?d) * 100 + 10000 < 2 ^ 256"
    by (simp add: o1(2))
  have h5: "unat (initialValue ?d)
              * spec_composite (unat (impactScore ?d)) (unat (engagementScore ?d)) (unat (qualityScore ?d))
              * 10000 < 2 ^ 256"
    by (simp add: o1(2) spec_composite_def)
  have "getCurrentValue ?q 0 s1 = Inr (initialValue ?d div 10)"
    using value_within_nineteen_days [of ?q 0 s1] o1(1) h1 h2 h3 h4 h5 by blast
  then have a: "getCurrentValue ?q 0 s1 = Inr (10 ^ 17)" by (simp add: o1(2))
  have l: "getCurrentValue ?l 0 s1 = Inr (10 ^ 17)"
    using o1 by (simp add: arith_defs nft_defs Let_def)
  have k1: "unat (lastValueUpdate ?d) + 86400 \<le> unat (block_timestamp ?l)"
    by (simp add: o1(2) days_def)
  have "(10 ^ 17 :: uint256) = initialValue ?d div 10"
    using value_within_nineteen_days [of ?l 0 s1] l k1 by blast
  show ?thesis using s1 a l by blast
qed

text \<open>From 20 elapsed days on the query reverts for every record.\<close>

lemma getCurrentValue_overflows:
  assumes "20 * 86400 \<le> unat (block_timestamp e) - unat (lastValueUpdate (valueData s t))"
  shows "\<exists>err. getCurrentValue e t s = Inl err"
  using calculateValue_overflows [OF assms]
  by (simp add: getCurrentValue_def require_def)

end
